theory Spec2Isabelle
  imports Complex_Main
begin

section \<open>Strings and characters\<close>

text \<open>
  Python's \<open>str\<close> is modelled as \<open>string\<close>; one \<open>char\<close> stands for one code point, and
  the model covers the code points below 256 (Latin-1). On that range the classes below
  are exactly the ones the \<open>re\<close> module and the \<open>str\<close> methods use for \<open>\d\<close>, \<open>\s\<close>,
  \<open>\w\<close>, \<open>str.strip()\<close> and \<open>str.lower()\<close>.
\<close>

definition ord :: "char \<Rightarrow> nat" where
  "ord c = of_char c"

definition is_digit :: "char \<Rightarrow> bool" where
  \<comment> \<open>\<open>\d\<close>\<close>
  "is_digit c = (48 \<le> ord c \<and> ord c \<le> 57)"

definition is_space :: "char \<Rightarrow> bool" where
  \<comment> \<open>\<open>\s\<close> and \<open>str.isspace\<close>: tab, LF, VT, FF, CR, FS, GS, RS, US, space, NEL, NBSP\<close>
  "is_space c = ((9 \<le> ord c \<and> ord c \<le> 13) \<or> (28 \<le> ord c \<and> ord c \<le> 32)
                 \<or> ord c = 133 \<or> ord c = 160)"

definition is_word :: "char \<Rightarrow> bool" where
  \<comment> \<open>\<open>\w\<close>: alphanumeric characters and the underscore\<close>
  "is_word c = (let n = ord c in
       (48 \<le> n \<and> n \<le> 57) \<or> (65 \<le> n \<and> n \<le> 90) \<or> n = 95 \<or> (97 \<le> n \<and> n \<le> 122)
     \<or> n = 170 \<or> n = 178 \<or> n = 179 \<or> n = 181 \<or> n = 185 \<or> n = 186
     \<or> (188 \<le> n \<and> n \<le> 190) \<or> (192 \<le> n \<and> n \<le> 214) \<or> (216 \<le> n \<and> n \<le> 246)
     \<or> (248 \<le> n \<and> n \<le> 255))"

definition lower_char :: "char \<Rightarrow> char" where
  "lower_char c = (let n = ord c in
       if (65 \<le> n \<and> n \<le> 90) \<or> (192 \<le> n \<and> n \<le> 214) \<or> (216 \<le> n \<and> n \<le> 222)
       then char_of (n + 32) else c)"

definition lower :: "string \<Rightarrow> string" where
  \<comment> \<open>\<open>str.lower()\<close>\<close>
  "lower s = map lower_char s"

fun contains :: "string \<Rightarrow> string \<Rightarrow> bool" where
  \<comment> \<open>\<open>contains p s\<close> is Python's \<open>p in s\<close> on strings\<close>
  "contains p [] = (p = [])"
| "contains p (c # cs) = (take (length p) (c # cs) = p \<or> contains p cs)"

definition lstrip_char :: "char \<Rightarrow> string \<Rightarrow> string" where
  \<comment> \<open>\<open>s.lstrip(ch)\<close> for a one-character argument\<close>
  "lstrip_char ch s = dropWhile (\<lambda>c. c = ch) s"

definition rstrip_char :: "char \<Rightarrow> string \<Rightarrow> string" where
  \<comment> \<open>\<open>s.rstrip(ch)\<close> for a one-character argument\<close>
  "rstrip_char ch s = rev (dropWhile (\<lambda>c. c = ch) (rev s))"

definition strip :: "string \<Rightarrow> string" where
  \<comment> \<open>\<open>s.strip()\<close>: whitespace removed at both ends\<close>
  "strip s = rev (dropWhile is_space (rev (dropWhile is_space s)))"

definition digit_char :: "nat \<Rightarrow> char" where
  "digit_char d = char_of (48 + d)"

fun str_nat :: "nat \<Rightarrow> string" where
  "str_nat n = (if n < 10 then [digit_char n] else str_nat (n div 10) @ [digit_char (n mod 10)])"

declare str_nat.simps [simp del]

definition str_int :: "int \<Rightarrow> string" where
  \<comment> \<open>\<open>str(i)\<close> for an integer\<close>
  "str_int i = (if i < 0 then CHR ''-'' # str_nat (nat (- i)) else str_nat (nat i))"

definition digit_val :: "char \<Rightarrow> nat" where
  "digit_val c = ord c - 48"

definition int_of_digits :: "string \<Rightarrow> nat" where
  \<comment> \<open>the value of a string of decimal digits, most significant digit first\<close>
  "int_of_digits s = foldl (\<lambda>a c. 10 * a + digit_val c) 0 s"

definition py_slice_to :: "int \<Rightarrow> 'a list \<Rightarrow> 'a list" where
  \<comment> \<open>\<open>xs[:n]\<close>: a negative bound counts from the end\<close>
  "py_slice_to n xs = (if 0 \<le> n then take (nat n) xs else take (length xs - nat (- n)) xs)"

section \<open>Python values, records of the timeline, the page\<close>

text \<open>
  The records the strategies build are Python dictionaries whose values are dynamically
  typed: \<open>None\<close>, booleans, integers, floats, strings, lists and dictionaries. The same
  universe is what \<open>json.loads\<close> returns. A dictionary is an association list read with
  \<open>map_of\<close>.
\<close>

datatype pyfloat = Finite rat | Infinity bool | NaN

datatype pyval =
    PNone
  | PBool bool
  | PInt int
  | PFloat pyfloat
  | PStr string
  | PList "pyval list"
  | PDict "(string \<times> pyval) list"

fun truthy :: "pyval \<Rightarrow> bool" where
  \<comment> \<open>Python's truth value of an object\<close>
  "truthy PNone = False"
| "truthy (PBool b) = b"
| "truthy (PInt i) = (i \<noteq> 0)"
| "truthy (PFloat f) = (f \<noteq> Finite 0)"
| "truthy (PStr s) = (s \<noteq> [])"
| "truthy (PList xs) = (xs \<noteq> [])"
| "truthy (PDict d) = (d \<noteq> [])"

definition py_or :: "pyval \<Rightarrow> pyval \<Rightarrow> pyval" where
  \<comment> \<open>\<open>a or b\<close>\<close>
  "py_or a b = (if truthy a then a else b)"

definition opt_str :: "string option \<Rightarrow> pyval" where
  \<comment> \<open>an optional string as a Python value\<close>
  "opt_str x = (case x of None \<Rightarrow> PNone | Some s \<Rightarrow> PStr s)"

definition dict_get :: "(string \<times> pyval) list \<Rightarrow> string \<Rightarrow> pyval" where
  \<comment> \<open>\<open>d.get(k)\<close> on a dictionary: \<open>None\<close> for an absent key\<close>
  "dict_get d k = (case map_of d k of None \<Rightarrow> PNone | Some v \<Rightarrow> v)"

record author_rec =
  rest_id :: pyval
  name :: pyval
  screen_name :: pyval
  avatar :: pyval
  blue_verified :: bool

record post =
  tweet_id :: pyval
  created_at :: pyval
  text_field :: pyval
  lang :: pyval
  views :: pyval
  favorites :: pyval
  replies :: pyval
  retweets :: pyval
  quotes :: pyval
  bookmarks :: pyval
  conversation_id :: pyval
  media :: pyval
  author :: author_rec

text \<open>
  The HTML document is seen through BeautifulSoup's selectors only. An element carries
  its attributes and the text that the code asks of it (\<open>get_text\<close> with the arguments
  used at that node); an item holds what each selector returns inside one
  \<open>div.timeline-item\<close>, the page what the selectors return on the whole document.
\<close>

record elem =
  attrs :: "(string \<times> string) list"
  get_text :: string

definition get_attr :: "elem \<Rightarrow> string \<Rightarrow> string option" where
  \<comment> \<open>\<open>el.get(k)\<close>\<close>
  "get_attr el k = map_of (attrs el) k"

record item =
  tweet_link :: "elem option"      \<comment> \<open>\<open>select_one("a.tweet-link")\<close>\<close>
  tweet_content :: "elem option"   \<comment> \<open>\<open>select_one(".tweet-content")\<close>\<close>
  tweet_date :: "elem option"      \<comment> \<open>\<open>select_one("span.tweet-date > a")\<close>\<close>
  tweet_stats :: "elem list"       \<comment> \<open>\<open>select("div.tweet-stats > span")\<close>\<close>
  images :: "elem list"            \<comment> \<open>\<open>select(".attachments .attachment.image img")\<close>\<close>
  videos :: "elem list"            \<comment> \<open>\<open>select(".attachments .attachment.video")\<close>\<close>

record page =
  timeline :: "item list"              \<comment> \<open>\<open>select("div.timeline > div.timeline-item")\<close>\<close>
  profile_card_avatar :: "elem option"   \<comment> \<open>\<open>select_one("a.profile-card-avatar img")\<close>\<close>
  profile_card_fullname :: "elem option" \<comment> \<open>\<open>select_one("a.profile-card-fullname")\<close>\<close>
  bio_verified :: "elem option"          \<comment> \<open>\<open>select_one("span.profile-bio .icon-verified")\<close>\<close>
  card_verified :: "elem option"         \<comment> \<open>\<open>select_one(".profile-card .icon-verified")\<close>\<close>

section \<open>Exceptions, the fetcher and its environment\<close>

text \<open>
  The exceptions are the subclasses of \<open>Exception\<close> that the modelled calls raise:
  \<open>HTTPError\<close> stands for \<open>httpx.HTTPError\<close> and its subclasses (transport errors,
  unsupported protocol, status errors), \<open>ValueError\<close> includes \<open>json.JSONDecodeError\<close>.
  Task cancellation and interpreter exit are not \<open>Exception\<close>s and are not modelled.
\<close>

datatype exn = HTTPError | InvalidURL | ValueError | AttributeError | TypeError

datatype strategy = Html | Json | Synthetic

datatype event = Get string | Strategy strategy

record fetcher =
  nitter_base :: string
  proxy :: "string option"
  max_posts :: int

text \<open>
  What the code takes from outside the repository is a parameter: building the httpx
  client, one GET with \<open>raise_for_status\<close> (its answer may depend on everything that
  happened before), BeautifulSoup, \<open>json.loads\<close>, dateutil's parser followed by the
  conversion to a UTC ISO string, the clock, the interpreter's string hash, \<open>str\<close>
  on floats, lists and dictionaries, and the interpreter's limit on the number of digits
  that \<open>int\<close> converts (\<open>sys.get_int_max_str_digits()\<close>: 4300 unless configured, 0 when
  the limit is switched off or the interpreter has none). Leaving the \<open>async with\<close> block is taken not to
  raise, and the clock is read as one value during a strategy's run.
\<close>

record env =
  mk_client :: "string option \<Rightarrow> exn + unit"
  client_get :: "event list \<Rightarrow> string \<Rightarrow> exn + string"
  soup :: "string \<Rightarrow> page"
  json_loads :: "string \<Rightarrow> exn + pyval"
  parse_utc_iso :: "string \<Rightarrow> exn + string"
  utc_now_iso :: string
  py_hash :: "string \<Rightarrow> int"
  py_repr :: "pyval \<Rightarrow> string"
  int_max_str_digits :: nat

section \<open>Date normalisation (\<open>utils_time.py\<close>)\<close>

definition now_utc_iso :: "env \<Rightarrow> string" where
  "now_utc_iso env = utc_now_iso env"

definition to_iso8601 :: "env \<Rightarrow> pyval \<Rightarrow> string" where
  \<comment> \<open>a falsy argument skips the \<open>try\<close>; inside it every exception is swallowed (the
      parser raises \<open>TypeError\<close> on an argument that is not a string)\<close>
  "to_iso8601 env dt_str =
     (if truthy dt_str then
        (case dt_str of
           PStr s \<Rightarrow> (case parse_utc_iso env s of Inr s_iso \<Rightarrow> s_iso | Inl e \<Rightarrow> now_utc_iso env)
         | _ \<Rightarrow> now_utc_iso env)
      else now_utc_iso env)"

section \<open>The HTML strategy (\<open>_parse_nitter_html\<close>)\<close>

definition py_int :: "env \<Rightarrow> string \<Rightarrow> exn + nat" where
  \<comment> \<open>\<open>int(s)\<close> for a non-empty string of decimal digits: \<open>ValueError\<close> when the string has
      more digits than the interpreter's limit (leading zeros count), its value otherwise\<close>
  "py_int env s =
     (if 0 < int_max_str_digits env \<and> int_max_str_digits env < length s then Inl ValueError
      else Inr (int_of_digits s))"

text \<open>
  \<open>re.search(r"/status/(\d+)", href)\<close>: the leftmost position where \<open>/status/\<close> is
  followed by a digit; the group is the longest run of digits there.
\<close>

definition match_status :: "string \<Rightarrow> string option" where
  "match_status s =
     (let ds = takeWhile is_digit (drop 8 s)
      in if take 8 s = ''/status/'' \<and> ds \<noteq> [] then Some ds else None)"

fun status_search :: "string \<Rightarrow> string option" where
  "status_search [] = None"
| "status_search (c # cs) =
     (case match_status (c # cs) of Some ds \<Rightarrow> Some ds | None \<Rightarrow> status_search cs)"

text \<open>
  \<open>re.search(r"(\d[\d,\.]*)\s+(\w+)", label)\<close>. At one position the match needs a
  digit, takes the longest run of digits, commas and periods, then the longest run of
  whitespace, then the longest run of word characters. Backtracking finds nothing else:
  a shorter numeric run is followed by a digit, comma or period, which is not
  whitespace, and a shorter whitespace run is followed by whitespace, which is not a
  word character. The search returns the match at the leftmost position that has one.
\<close>

definition is_numch :: "char \<Rightarrow> bool" where
  \<comment> \<open>\<open>[\d,\.]\<close>\<close>
  "is_numch c = (is_digit c \<or> c = CHR '','' \<or> c = CHR ''.'')"

definition match_count :: "string \<Rightarrow> (string \<times> string) option" where
  "match_count s =
     (case s of
        [] \<Rightarrow> None
      | c # cs \<Rightarrow>
          if \<not> is_digit c then None
          else let num = c # takeWhile is_numch cs;
                   r1 = dropWhile is_numch cs;
                   r2 = dropWhile is_space r1;
                   w = takeWhile is_word r2
               in if takeWhile is_space r1 \<noteq> [] \<and> w \<noteq> [] then Some (num, w) else None)"

fun count_search :: "string \<Rightarrow> (string \<times> string) option" where
  "count_search [] = None"
| "count_search (c # cs) =
     (case match_count (c # cs) of Some m \<Rightarrow> Some m | None \<Rightarrow> count_search cs)"

definition replace_del :: "char \<Rightarrow> string \<Rightarrow> string" where
  \<comment> \<open>\<open>s.replace(ch, "")\<close>\<close>
  "replace_del ch s = filter (\<lambda>c. c \<noteq> ch) s"

definition stats0 :: "string \<Rightarrow> pyval" where
  \<comment> \<open>the initial \<open>stats\<close> dictionary; only its six keys are ever read or written\<close>
  "stats0 = (\<lambda>k. PNone)
     (''replies'' := PInt 0, ''retweets'' := PInt 0, ''quotes'' := PInt 0,
      ''favorites'' := PInt 0, ''bookmarks'' := PNone, ''views'' := PNone)"

definition stat_label :: "elem \<Rightarrow> string" where
  \<comment> \<open>\<open>s.get("title") or s.get_text("", strip=True)\<close>\<close>
  "stat_label s = (case get_attr s ''title'' of
                     Some t \<Rightarrow> if t \<noteq> [] then t else get_text s
                   | None \<Rightarrow> get_text s)"

definition stat_step :: "env \<Rightarrow> (string \<Rightarrow> pyval) \<Rightarrow> elem \<Rightarrow> exn + (string \<Rightarrow> pyval)" where
  \<comment> \<open>one round of the loop over the stat spans; \<open>int\<close> may raise\<close>
  "stat_step env stats s =
     (let label = stat_label s in
      if label = [] then Inr stats
      else case count_search label of
             None \<Rightarrow> Inr stats
           | Some (g1, g2) \<Rightarrow>
               (case py_int env (replace_del CHR ''.'' (replace_del CHR '','' g1)) of
                  Inl e \<Rightarrow> Inl e
                | Inr n \<Rightarrow>
                    let val = int n;
                        kind = lower g2
                    in if contains ''like'' kind then Inr (stats(''favorites'' := PInt val))
                       else if contains ''retweet'' kind then Inr (stats(''retweets'' := PInt val))
                       else if contains ''repl'' kind then Inr (stats(''replies'' := PInt val))
                       else if contains ''quote'' kind then Inr (stats(''quotes'' := PInt val))
                       else Inr stats))"

fun stats_loop :: "env \<Rightarrow> (string \<Rightarrow> pyval) \<Rightarrow> elem list \<Rightarrow> exn + (string \<Rightarrow> pyval)" where
  \<comment> \<open>the loop over the stat spans; an exception ends it\<close>
  "stats_loop env stats [] = Inr stats"
| "stats_loop env stats (s # rest) =
     (case stat_step env stats s of
        Inl e \<Rightarrow> Inl e
      | Inr stats' \<Rightarrow> stats_loop env stats' rest)"

definition item_stats :: "env \<Rightarrow> item \<Rightarrow> exn + (string \<Rightarrow> pyval)" where
  "item_stats env it = stats_loop env stats0 (tweet_stats it)"

definition item_sid :: "item \<Rightarrow> pyval" where
  "item_sid it =
     (case tweet_link it of
        None \<Rightarrow> PNone
      | Some link \<Rightarrow>
          (case get_attr link ''href'' of
             None \<Rightarrow> PNone
           | Some href \<Rightarrow> if href = [] then PNone else opt_str (status_search href)))"

definition media_entry :: "string \<Rightarrow> string \<Rightarrow> pyval" where
  "media_entry ty url = PDict [(''type'', PStr ty), (''url'', PStr url)]"

definition item_media :: "item \<Rightarrow> pyval list" where
  "item_media it =
     concat (map (\<lambda>img. case get_attr img ''src'' of
                          Some src \<Rightarrow> if src \<noteq> [] then [media_entry ''photo'' src] else []
                        | None \<Rightarrow> []) (images it))
     @ concat (map (\<lambda>video. case get_attr video ''data-poster'' of
                          Some poster \<Rightarrow> if poster \<noteq> [] then [media_entry ''video'' poster] else []
                        | None \<Rightarrow> []) (videos it))"

definition page_author :: "page \<Rightarrow> string \<Rightarrow> author_rec" where
  "page_author pg sname =
     \<lparr> rest_id = PNone,
       name = (case profile_card_fullname pg of Some display \<Rightarrow> PStr (get_text display)
                                              | None \<Rightarrow> PStr sname),
       screen_name = PStr sname,
       avatar = (case profile_card_avatar pg of
                   None \<Rightarrow> PNone
                 | Some av \<Rightarrow> (case get_attr av ''src'' of
                                 Some src \<Rightarrow> if src \<noteq> [] then PStr src else PNone
                               | None \<Rightarrow> PNone)),
       blue_verified = (bio_verified pg \<noteq> None \<or> card_verified pg \<noteq> None) \<rparr>"

definition item_text :: "item \<Rightarrow> pyval" where
  \<comment> \<open>\<open>content.get_text(" ", strip=True) if content else None\<close>\<close>
  "item_text it = (case tweet_content it of Some content \<Rightarrow> PStr (get_text content)
                                          | None \<Rightarrow> PNone)"

definition item_created :: "item \<Rightarrow> pyval" where
  \<comment> \<open>\<open>date_node.get("title") if date_node else None\<close>\<close>
  "item_created it = (case tweet_date it of Some date_node \<Rightarrow> opt_str (get_attr date_node ''title'')
                                          | None \<Rightarrow> PNone)"

definition html_obj :: "env \<Rightarrow> page \<Rightarrow> string \<Rightarrow> item \<Rightarrow> exn + post" where
  \<comment> \<open>the dictionary built for one timeline item; an exception of the stats loop leaves
      the parser\<close>
  "html_obj env pg sname it =
     (let sid = item_sid it;
          text = item_text it;
          created = item_created it;
          created_at_iso = (if truthy created then PStr (to_iso8601 env created) else PNone)
      in case item_stats env it of
           Inl e \<Rightarrow> Inl e
         | Inr stats \<Rightarrow>
             Inr \<lparr> tweet_id = sid,
                   created_at = py_or created created_at_iso,
                   text_field = text,
                   lang = PNone,
                   views = stats ''views'',
                   favorites = stats ''favorites'',
                   replies = stats ''replies'',
                   retweets = stats ''retweets'',
                   quotes = stats ''quotes'',
                   bookmarks = stats ''bookmarks'',
                   conversation_id = sid,
                   media = PList (item_media it),
                   author = page_author pg sname \<rparr>)"

fun html_loop ::
    "env \<Rightarrow> int \<Rightarrow> page \<Rightarrow> string \<Rightarrow> post list \<Rightarrow> item list \<Rightarrow> exn + post list" where
  \<comment> \<open>the loop over the timeline items, \<open>results\<close> being the list built so far\<close>
  "html_loop env mp pg sname results [] = Inr results"
| "html_loop env mp pg sname results (it # rest) =
     (case html_obj env pg sname it of
        Inl e \<Rightarrow> Inl e
      | Inr obj \<Rightarrow>
          let results' = (if truthy (tweet_id obj) \<or> truthy (text_field obj)
                          then results @ [obj] else results)
          in if mp \<le> int (length results') then Inr results'
             else html_loop env mp pg sname results' rest)"

definition parse_nitter_html :: "env \<Rightarrow> fetcher \<Rightarrow> string \<Rightarrow> string \<Rightarrow> exn + post list" where
  "parse_nitter_html env self html sname =
     (let pg = soup env html in html_loop env (max_posts self) pg sname [] (timeline pg))"

section \<open>The JSON strategy (\<open>_parse_nitter_json\<close>)\<close>

definition select_items :: "pyval \<Rightarrow> pyval" where
  \<comment> \<open>the \<open>if\<close>/\<open>elif\<close>/\<open>else\<close> that chooses \<open>items\<close>\<close>
  "select_items data =
     (case data of
        PDict d \<Rightarrow> if map_of d ''statuses'' \<noteq> None then py_or (dict_get d ''statuses'') (PList [])
                  else PList []
      | PList xs \<Rightarrow> PList xs
      | _ \<Rightarrow> PList [])"

definition py_iter :: "pyval \<Rightarrow> exn + pyval list" where
  \<comment> \<open>what \<open>for tw in items\<close> runs over: the elements of a list, the characters of a
      string, the keys of a dictionary; other values are not iterable\<close>
  "py_iter v =
     (case v of
        PList xs \<Rightarrow> Inr xs
      | PStr s \<Rightarrow> Inr (map (\<lambda>c. PStr [c]) s)
      | PDict d \<Rightarrow> Inr (map PStr (remdups (map fst d)))
      | _ \<Rightarrow> Inl TypeError)"

definition py_str :: "env \<Rightarrow> pyval \<Rightarrow> string" where
  \<comment> \<open>\<open>str(v)\<close>\<close>
  "py_str env v =
     (case v of
        PStr s \<Rightarrow> s
      | PInt i \<Rightarrow> str_int i
      | PBool b \<Rightarrow> (if b then ''True'' else ''False'')
      | PNone \<Rightarrow> ''None''
      | _ \<Rightarrow> py_repr env v)"

definition tw_created :: "(string \<times> pyval) list \<Rightarrow> pyval" where
  \<comment> \<open>\<open>tw.get("date") or tw.get("created_at")\<close>\<close>
  "tw_created d = py_or (dict_get d ''date'') (dict_get d ''created_at'')"

definition json_obj :: "env \<Rightarrow> string \<Rightarrow> pyval \<Rightarrow> exn + post" where
  \<comment> \<open>the dictionary built for one element: \<open>tw.get\<close> exists on dictionaries only, and so
      does the \<open>.get\<close> applied to \<open>tw.get("user", {})\<close>\<close>
  "json_obj env sname tw =
     (case tw of
        PDict d \<Rightarrow>
          (let tid = (if dict_get d ''id'' \<noteq> PNone then PStr (py_str env (dict_get d ''id''))
                      else PNone);
               created = tw_created d;
               user = (case map_of d ''user'' of None \<Rightarrow> PDict [] | Some u \<Rightarrow> u)
           in case user of
                PDict u \<Rightarrow>
                  Inr \<lparr> tweet_id = tid,
                        created_at = (if truthy created
                                      then py_or created (PStr (to_iso8601 env created))
                                      else PNone),
                        text_field = dict_get d ''text'',
                        lang = dict_get d ''lang'',
                        views = dict_get d ''views'',
                        favorites = py_or (py_or (dict_get d ''likes'') (dict_get d ''favorites''))
                                          (PInt 0),
                        replies = py_or (dict_get d ''replies'') (PInt 0),
                        retweets = py_or (dict_get d ''retweets'') (PInt 0),
                        quotes = py_or (dict_get d ''quotes'') (PInt 0),
                        bookmarks = dict_get d ''bookmarks'',
                        conversation_id = py_or (dict_get d ''conversation_id'') tid,
                        media = py_or (dict_get d ''media'') (PList []),
                        author = \<lparr> rest_id = dict_get u ''id'',
                                   name = py_or (dict_get u ''name'') (PStr sname),
                                   screen_name = py_or (dict_get u ''screen_name'') (PStr sname),
                                   avatar = dict_get u ''profile_image_url'',
                                   blue_verified = truthy (dict_get u ''verified'') \<rparr> \<rparr>
              | _ \<Rightarrow> Inl AttributeError)
      | _ \<Rightarrow> Inl AttributeError)"

fun json_loop :: "env \<Rightarrow> int \<Rightarrow> string \<Rightarrow> post list \<Rightarrow> pyval list \<Rightarrow> exn + post list" where
  "json_loop env mp sname results [] = Inr results"
| "json_loop env mp sname results (tw # rest) =
     (case json_obj env sname tw of
        Inl e \<Rightarrow> Inl e
      | Inr obj \<Rightarrow>
          let results' = results @ [obj]
          in if mp \<le> int (length results') then Inr results'
             else json_loop env mp sname results' rest)"

definition parse_nitter_json :: "env \<Rightarrow> fetcher \<Rightarrow> pyval \<Rightarrow> string \<Rightarrow> exn + post list" where
  "parse_nitter_json env self data sname =
     (case py_iter (select_items data) of
        Inl e \<Rightarrow> Inl e
      | Inr items \<Rightarrow> json_loop env (max_posts self) sname [] items)"

section \<open>The synthetic strategy (\<open>_synthetic_posts\<close>)\<close>

definition synthetic_obj :: "env \<Rightarrow> string \<Rightarrow> int \<Rightarrow> nat \<Rightarrow> post" where
  "synthetic_obj env sname base_id i =
     (let tid = str_int (base_id + int i)
      in \<lparr> tweet_id = PStr tid,
           created_at = PStr (to_iso8601 env PNone),
           text_field = PStr (''SYNTHETIC: Hello from @'' @ sname @ '' #'' @ str_int (int i)),
           lang = PStr ''en'',
           views = PStr (str_int (1000 + int i * 7)),
           favorites = PInt (10 + int i),
           replies = PInt (int i div 2),
           retweets = PInt (int i div 3),
           quotes = PInt (int i div 5),
           bookmarks = PNone,
           conversation_id = PStr tid,
           media = PList [],
           author = \<lparr> rest_id = PNone, name = PStr sname, screen_name = PStr sname,
                      avatar = PNone, blue_verified = False \<rparr> \<rparr>)"

definition synthetic_posts :: "env \<Rightarrow> fetcher \<Rightarrow> string \<Rightarrow> post list" where
  "synthetic_posts env self sname =
     (let base_id = \<bar>py_hash env sname\<bar> mod 10000000000
      in map (synthetic_obj env sname base_id) [0 ..< nat (min (max_posts self) 10)])"

section \<open>The extraction chain (\<open>_get_html\<close>, \<open>fetch_username\<close>)\<close>

text \<open>
  The chain returns its result together with the trace of what it did: every GET that
  was issued and every strategy that was started. \<open>get_html_attempt\<close> is \<open>_get_html\<close>
  under its retry decorator: an \<open>httpx.HTTPError\<close> is retried until the third attempt
  has failed and is then raised again; any other exception is raised at once.
\<close>

function get_html_attempt ::
    "env \<Rightarrow> string \<Rightarrow> nat \<Rightarrow> event list \<Rightarrow> (exn + string) \<times> event list" where
  "get_html_attempt env url attempt tr =
     (case client_get env tr url of
        Inr txt \<Rightarrow> (Inr txt, tr @ [Get url])
      | Inl e \<Rightarrow> if e = HTTPError \<and> attempt < 3
                 then get_html_attempt env url (Suc attempt) (tr @ [Get url])
                 else (Inl e, tr @ [Get url]))"
  by pat_completeness auto
termination
  by (relation "measure (\<lambda>(env, url, attempt, tr). 3 - attempt)") auto

declare get_html_attempt.simps [simp del]

definition get_html :: "env \<Rightarrow> string \<Rightarrow> event list \<Rightarrow> (exn + string) \<times> event list" where
  "get_html env url tr = get_html_attempt env url 1 tr"

definition html_url :: "fetcher \<Rightarrow> string \<Rightarrow> string" where
  "html_url self sname = rstrip_char CHR ''/'' (nitter_base self) @ ''/'' @ sname"

definition json_url :: "fetcher \<Rightarrow> string \<Rightarrow> string" where
  "json_url self sname = rstrip_char CHR ''/'' (nitter_base self) @ ''/'' @ sname @ ''?_format=json''"

definition json_strategy ::
    "env \<Rightarrow> fetcher \<Rightarrow> string \<Rightarrow> event list \<Rightarrow> (exn + post list option) \<times> event list" where
  \<comment> \<open>the body of the inner \<open>try\<close>: \<open>Some\<close> is its \<open>return\<close>, \<open>None\<close> is falling off its end\<close>
  "json_strategy env self sname tr =
     (case get_html env (json_url self sname) tr of
        (Inl e, tr') \<Rightarrow> (Inl e, tr')
      | (Inr txt, tr') \<Rightarrow>
          (case json_loads env txt of
             Inl e \<Rightarrow> (Inl e, tr')
           | Inr data \<Rightarrow>
               (case parse_nitter_json env self data sname of
                  Inl e \<Rightarrow> (Inl e, tr')
                | Inr candidate \<Rightarrow>
                    if candidate \<noteq> [] then (Inr (Some (py_slice_to (max_posts self) candidate)), tr')
                    else (Inr None, tr'))))"

definition network_strategies ::
    "env \<Rightarrow> fetcher \<Rightarrow> string \<Rightarrow> (exn + post list option) \<times> event list" where
  \<comment> \<open>the body of the outer \<open>try\<close>; the inner \<open>except Exception\<close> turns a failure of the
      JSON strategy into falling off the end\<close>
  "network_strategies env self sname =
     (case mk_client env (proxy self) of
        Inl e \<Rightarrow> (Inl e, [])
      | Inr client \<Rightarrow>
          (case get_html env (html_url self sname) [Strategy Html] of
             (Inl e, tr) \<Rightarrow> (Inl e, tr)
           | (Inr html, tr) \<Rightarrow>
               (case parse_nitter_html env self html sname of
                  Inl e \<Rightarrow> (Inl e, tr)
                | Inr items \<Rightarrow>
                    if items \<noteq> [] then (Inr (Some (py_slice_to (max_posts self) items)), tr)
                    else (case json_strategy env self sname (tr @ [Strategy Json]) of
                            (Inl e, tr') \<Rightarrow> (Inr None, tr')
                          | (Inr r, tr') \<Rightarrow> (Inr r, tr')))))"

definition normalize_screen_name :: "string \<Rightarrow> string" where
  \<comment> \<open>the first statement of \<open>fetch_username\<close>: \<open>screen_name.lstrip("@").strip()\<close>\<close>
  "normalize_screen_name sname = strip (lstrip_char CHR ''@'' sname)"

definition fetch_username ::
    "env \<Rightarrow> fetcher \<Rightarrow> string \<Rightarrow> (exn + post list) \<times> event list" where
  \<comment> \<open>the outer \<open>except Exception\<close> logs and goes on to the synthetic strategy\<close>
  "fetch_username env self sname0 =
     (let sname = normalize_screen_name sname0
      in case network_strategies env self sname of
           (Inr (Some items), tr) \<Rightarrow> (Inr items, tr)
         | (Inr None, tr) \<Rightarrow> (Inr (synthetic_posts env self sname), tr @ [Strategy Synthetic])
         | (Inl e, tr) \<Rightarrow> (Inr (synthetic_posts env self sname), tr @ [Strategy Synthetic]))"

section \<open>Notions used in the statements\<close>

definition dec_value :: "string \<Rightarrow> nat" where
  \<comment> \<open>the number a string of decimal digits denotes, written as the positional sum; the
      reference against which \<open>int\<close> on a digit string is compared\<close>
  "dec_value ds = (\<Sum>i < length ds. digit_val (ds ! i) * 10 ^ (length ds - 1 - i))"

definition stat_key :: "elem \<Rightarrow> string option" where
  \<comment> \<open>the count that a stat span's label addresses, if any\<close>
  "stat_key s =
     (case count_search (stat_label s) of
        None \<Rightarrow> None
      | Some (g1, g2) \<Rightarrow>
          let kind = lower g2
          in if contains ''like'' kind then Some ''favorites''
             else if contains ''retweet'' kind then Some ''retweets''
             else if contains ''repl'' kind then Some ''replies''
             else if contains ''quote'' kind then Some ''quotes''
             else None)"

definition nonneg_int :: "pyval \<Rightarrow> bool" where
  \<comment> \<open>the value is an integer and is not negative\<close>
  "nonneg_int v = (case v of PInt i \<Rightarrow> 0 \<le> i | _ \<Rightarrow> False)"

definition counts_nonneg :: "post \<Rightarrow> bool" where
  "counts_nonneg p = (nonneg_int (replies p) \<and> nonneg_int (retweets p)
                      \<and> nonneg_int (quotes p) \<and> nonneg_int (favorites p))"

definition stats_nonneg :: "(string \<Rightarrow> pyval) \<Rightarrow> bool" where
  \<comment> \<open>the four counts of a \<open>stats\<close> dictionary are non-negative integers\<close>
  "stats_nonneg stats = (nonneg_int (stats ''replies'') \<and> nonneg_int (stats ''retweets'')
                         \<and> nonneg_int (stats ''quotes'') \<and> nonneg_int (stats ''favorites''))"



section \<open>Example inputs\<close>

definition sample_fetcher :: fetcher where
  "sample_fetcher = \<lparr> nitter_base = ''https://nitter.net/'', proxy = None, max_posts = 3 \<rparr>"

definition empty_page :: page where
  "empty_page = \<lparr> timeline = [], profile_card_avatar = None, profile_card_fullname = None,
                    bio_verified = None, card_verified = None \<rparr>"

definition sample_item :: item where
  \<comment> \<open>status link \<open>/alice/status/42\<close>, content "hello world", one stat span "5 Likes",
      no date node\<close>
  "sample_item =
     \<lparr> tweet_link = Some \<lparr> attrs = [(''href'', ''/alice/status/42'')], get_text = '''' \<rparr>,
       tweet_content = Some \<lparr> attrs = [], get_text = ''hello world'' \<rparr>,
       tweet_date = None,
       tweet_stats = [\<lparr> attrs = [], get_text = ''5 Likes'' \<rparr>],
       images = [],
       videos = [] \<rparr>"

definition sample_page :: page where
  "sample_page = empty_page \<lparr> timeline := [sample_item] \<rparr>"

definition sample_record :: "page \<Rightarrow> string \<Rightarrow> post" where
  \<comment> \<open>the record of \<open>sample_item\<close>\<close>
  "sample_record pg sname =
     \<lparr> tweet_id = PStr ''42'', created_at = PNone, text_field = PStr ''hello world'',
       lang = PNone, views = PNone, favorites = PInt 5, replies = PInt 0, retweets = PInt 0,
       quotes = PInt 0, bookmarks = PNone, conversation_id = PStr ''42'', media = PList [],
       author = page_author pg sname \<rparr>"

definition crowded_page :: page where
  \<comment> \<open>five timeline items, more than \<open>sample_fetcher\<close> keeps\<close>
  "crowded_page = empty_page \<lparr> timeline := replicate 5 sample_item \<rparr>"

definition zero_fetcher :: fetcher where
  \<comment> \<open>a fetcher configured to keep no post\<close>
  "zero_fetcher = \<lparr> nitter_base = ''https://nitter.net/'', proxy = None, max_posts = 0 \<rparr>"

definition span_titled :: "string \<Rightarrow> elem" where
  \<comment> \<open>a stat span whose label comes from its \<open>title\<close> attribute\<close>
  "span_titled label = \<lparr> attrs = [(''title'', label)], get_text = '''' \<rparr>"

definition long_count :: string where
  \<comment> \<open>a numeric group of 4301 digits, one more than the default limit of \<open>int\<close>\<close>
  "long_count = replicate 4301 CHR ''1''"

definition long_count_page :: page where
  \<comment> \<open>\<open>sample_item\<close> with the stat label \<open>11...1 Likes\<close> of 4301 digits\<close>
  "long_count_page =
     empty_page \<lparr> timeline :=
       [sample_item \<lparr> tweet_stats := [span_titled (long_count @ '' Likes'')] \<rparr>] \<rparr>"


definition bad_counts :: pyval where
  \<comment> \<open>\<open>[{"id": 42, "likes": -5, "replies": "many"}]\<close>\<close>
  "bad_counts = PList [PDict [(''id'', PInt 42), (''likes'', PInt (- 5)), (''replies'', PStr ''many'')]]"

definition env_offline :: env where
  \<comment> \<open>no request ever succeeds\<close>
  "env_offline =
     \<lparr> mk_client = (\<lambda>p. Inr ()),
       client_get = (\<lambda>tr url. Inl HTTPError),
       soup = (\<lambda>html. empty_page),
       json_loads = (\<lambda>txt. Inl ValueError),
       parse_utc_iso = (\<lambda>s. Inl ValueError),
       utc_now_iso = ''2024-01-01T00:00:00+00:00'',
       py_hash = (\<lambda>s. - 7),
       py_repr = (\<lambda>v. ''?''),
       int_max_str_digits = 4300 \<rparr>"

definition env_serving :: "page \<Rightarrow> env" where
  \<comment> \<open>every request is answered, and the answer parses to the given page\<close>
  "env_serving pg = env_offline \<lparr> client_get := (\<lambda>tr url. Inr ''<html>''), soup := (\<lambda>html. pg) \<rparr>"

definition env_bad_proxy :: env where
  \<comment> \<open>building the client fails on the proxy specification\<close>
  "env_bad_proxy = env_offline \<lparr> mk_client := (\<lambda>p. Inl ValueError) \<rparr>"

definition env_other_process :: env where
  \<comment> \<open>another interpreter process: the string hash is salted differently\<close>
  "env_other_process = env_offline \<lparr> py_hash := (\<lambda>s. 12) \<rparr>"

definition env_json :: "pyval \<Rightarrow> env" where
  \<comment> \<open>the HTML page has no timeline item, and the JSON endpoint answers with the given value\<close>
  "env_json data = env_serving empty_page \<lparr> json_loads := (\<lambda>txt. Inr data) \<rparr>"

section \<open>Properties of the extraction chain\<close>

lemma py_slice_to_nonempty: "0 < n \<Longrightarrow> xs \<noteq> [] \<Longrightarrow> py_slice_to n xs \<noteq> []"
  by (cases xs) (auto simp: py_slice_to_def)

lemma length_synthetic_posts:
  "length (synthetic_posts env self sname) = nat (min (max_posts self) 10)"
  by (simp add: synthetic_posts_def Let_def)

lemma get_html_attempt_trace:
  "get_html_attempt env url attempt tr = (r, tr') \<Longrightarrow> set tr' = insert (Get url) (set tr)"
proof (induction env url attempt tr rule: get_html_attempt.induct)
  case (1 env u a tr)
  show ?case
  proof (cases "client_get env tr u")
    case (Inr body)
    with "1.prems" show ?thesis by (auto simp add: get_html_attempt.simps [of env u a])
  next
    case (Inl e)
    show ?thesis
    proof (cases "e = HTTPError \<and> a < 3")
      case True
      with Inl "1.prems" have "get_html_attempt env u (Suc a) (tr @ [Get u]) = (r, tr')"
        by (simp add: get_html_attempt.simps [of env u a])
      from "1.IH" [OF Inl True this] show ?thesis by simp
    next
      case False
      with Inl "1.prems" show ?thesis by (auto simp add: get_html_attempt.simps [of env u a])
    qed
  qed
qed

lemma network_some_nonempty:
  "0 < max_posts self \<Longrightarrow> network_strategies env self sname = (Inr (Some items), tr) \<Longrightarrow> items \<noteq> []"
  by (auto simp: network_strategies_def json_strategy_def Let_def py_slice_to_nonempty
           split: sum.splits prod.splits if_splits)

text \<open>
  Claim C2. For every handle and every behaviour of the network, total unavailability
  included, a fetcher whose \<open>max_posts\<close> is positive gets at least one record from
  \<open>fetch_username\<close>: the call returns (it does not raise), its list is not empty, and the
  synthetic strategy at the end of the chain produces \<open>min(max_posts, 10)\<close> records, which is
  at least one.
\<close>

theorem fetch_username_nonempty:
  assumes "0 < max_posts self"
  shows "(\<exists>ps tr. fetch_username env self sname0 = (Inr ps, tr) \<and> 1 \<le> length ps)
       \<and> length (synthetic_posts env self (normalize_screen_name sname0)) = nat (min (max_posts self) 10)
       \<and> 1 \<le> nat (min (max_posts self) 10)"
proof -
  let ?sn = "normalize_screen_name sname0"
  have len: "length (synthetic_posts env self ?sn) = nat (min (max_posts self) 10)"
    by (rule length_synthetic_posts)
  have pos: "1 \<le> nat (min (max_posts self) 10)" using assms by simp
  obtain r tr where net: "network_strategies env self ?sn = (r, tr)"
    by (cases "network_strategies env self ?sn")
  have "\<exists>ps tr. fetch_username env self sname0 = (Inr ps, tr) \<and> 1 \<le> length ps"
  proof (cases r)
    case (Inl e)
    with net len pos show ?thesis by (simp add: fetch_username_def)
  next
    case (Inr opt)
    show ?thesis
    proof (cases opt)
      case None
      with Inr net len pos show ?thesis by (simp add: fetch_username_def)
    next
      case (Some items)
      with Inr net assms have "items \<noteq> []" by (auto dest: network_some_nonempty)
      then have "1 \<le> length items" by (cases items) simp_all
      with Some Inr net show ?thesis by (simp add: fetch_username_def)
    qed
  qed
  with len pos show ?thesis by simp
qed

theorem fetch_username_nonempty_witness:
  "0 < max_posts sample_fetcher
   \<and> (\<exists>ps tr. fetch_username env_offline sample_fetcher ''@jack'' = (Inr ps, tr) \<and> 1 \<le> length ps)"
  using fetch_username_nonempty [of sample_fetcher env_offline "''@jack''"]
  by (simp add: sample_fetcher_def)

lemma get_html_trace:
  "get_html env url tr = (r, tr') \<Longrightarrow> set tr' = insert (Get url) (set tr)"
  unfolding get_html_def by (rule get_html_attempt_trace)

lemma json_url_neq_html_url: "json_url self sname \<noteq> html_url self sname"
  by (simp add: json_url_def html_url_def)

lemma fetch_username_returns: "\<exists>ps tr. fetch_username env self sname0 = (Inr ps, tr)"
  by (simp add: fetch_username_def Let_def split: prod.splits sum.splits option.splits)

lemma get_html_http_error_three:
  "get_html env url tr = (Inl HTTPError, tr') \<Longrightarrow> tr' = tr @ [Get url, Get url, Get url]"
  unfolding get_html_def
  apply (subst (asm) get_html_attempt.simps)
  apply (simp split: sum.splits if_splits)
  apply (subst (asm) get_html_attempt.simps)
  apply (simp split: sum.splits if_splits)
  apply (subst (asm) get_html_attempt.simps)
  apply (simp split: sum.splits if_splits)
  done

lemma get_html_at_most_three:
  "get_html env url tr = (r, tr') \<Longrightarrow>
     tr' = tr @ [Get url] \<or> tr' = tr @ [Get url, Get url] \<or> tr' = tr @ [Get url, Get url, Get url]"
  unfolding get_html_def
  apply (subst (asm) get_html_attempt.simps)
  apply (simp split: sum.splits if_splits)
  apply (subst (asm) get_html_attempt.simps)
  apply (simp split: sum.splits if_splits)
  apply (subst (asm) get_html_attempt.simps)
  apply (simp split: sum.splits if_splits)
  done

subsection \<open>Evaluation on the example inputs\<close>

lemmas char_class_defs = is_digit_def is_space_def is_word_def is_numch_def ord_def lower_def
  lower_char_def digit_char_def char_of_def bit_Suc_0_iff

lemma py_int_short: "length s \<le> 1 \<Longrightarrow> py_int env s = Inr (int_of_digits s)"
  by (auto simp: py_int_def)

lemma sample_stats:
  "item_stats env sample_item = Inr (stats0(''favorites'' := PInt 5))"
  by (simp add: item_stats_def sample_item_def stat_step_def stat_label_def get_attr_def
        match_count_def py_int_short replace_del_def int_of_digits_def digit_val_def Let_def
        char_class_defs)

lemma sample_html_obj:
  "html_obj env pg sname sample_item = Inr (sample_record pg sname)"
  by (simp add: html_obj_def sample_stats Let_def)
     (simp add: sample_item_def sample_record_def item_sid_def item_text_def item_created_def
        get_attr_def opt_str_def py_or_def item_media_def match_status_def stats0_def
        char_class_defs)

lemma sample_truthy: "truthy (tweet_id (sample_record pg sname))"
  by (simp add: sample_record_def)

lemma sample_parse:
  "parse_nitter_html (env_serving sample_page) sample_fetcher html sname =
     Inr [sample_record sample_page sname]"
  by (simp add: parse_nitter_html_def env_serving_def sample_page_def sample_fetcher_def
        Let_def sample_html_obj sample_truthy)

lemma zero_parse:
  "parse_nitter_html (env_serving sample_page) zero_fetcher html sname =
     Inr [sample_record sample_page sname]"
  by (simp add: parse_nitter_html_def env_serving_def sample_page_def zero_fetcher_def
        Let_def sample_html_obj sample_truthy)

lemma crowded_parse:
  "parse_nitter_html (env_serving crowded_page) sample_fetcher html sname =
     Inr (replicate 3 (sample_record crowded_page sname))"
  by (simp add: parse_nitter_html_def env_serving_def crowded_page_def sample_fetcher_def
        Let_def sample_html_obj sample_truthy eval_nat_numeral)

lemma empty_parse:
  "parse_nitter_html (env_serving empty_page) self html sname = Inr []"
  by (simp add: parse_nitter_html_def env_serving_def empty_page_def)

lemma ones_numch:
  "takeWhile is_numch (replicate n CHR ''1'' @ ys) = replicate n CHR ''1'' @ takeWhile is_numch ys"
  "dropWhile is_numch (replicate n CHR ''1'' @ ys) = dropWhile is_numch ys"
  by (induction n) (simp_all add: is_numch_def is_digit_def ord_def)

lemma ones_match:
  "match_count (CHR ''1'' # replicate n CHR ''1'' @ '' Likes'')
     = Some (CHR ''1'' # replicate n CHR ''1'', ''Likes'')"
  "match_count (CHR ''1'' # replicate n CHR ''1'' @ '' Views'')
     = Some (CHR ''1'' # replicate n CHR ''1'', ''Views'')"
proof -
  have d: "is_digit CHR ''1''"
    by (simp add: is_digit_def ord_def)
  have likes: "takeWhile is_numch '' Likes'' = []" "dropWhile is_numch '' Likes'' = '' Likes''"
    "takeWhile is_space '' Likes'' = '' ''" "dropWhile is_space '' Likes'' = ''Likes''"
    "takeWhile is_word ''Likes'' = ''Likes''"
    by (simp_all add: char_class_defs)
  have views: "takeWhile is_numch '' Views'' = []" "dropWhile is_numch '' Views'' = '' Views''"
    "takeWhile is_space '' Views'' = '' ''" "dropWhile is_space '' Views'' = ''Views''"
    "takeWhile is_word ''Views'' = ''Views''"
    by (simp_all add: char_class_defs)
  show "match_count (CHR ''1'' # replicate n CHR ''1'' @ '' Likes'')
     = Some (CHR ''1'' # replicate n CHR ''1'', ''Likes'')"
    unfolding match_count_def by (simp add: d Let_def ones_numch likes del: takeWhile.simps dropWhile.simps)
  show "match_count (CHR ''1'' # replicate n CHR ''1'' @ '' Views'')
     = Some (CHR ''1'' # replicate n CHR ''1'', ''Views'')"
    unfolding match_count_def by (simp add: d Let_def ones_numch views del: takeWhile.simps dropWhile.simps)
qed

lemma long_count_cons: "long_count = CHR ''1'' # replicate 4300 CHR ''1''"
proof -
  have "long_count = replicate (Suc 4300) CHR ''1''"
    by (simp add: long_count_def)
  then show ?thesis by (simp only: replicate.simps)
qed

lemma long_count_search:
  "count_search (long_count @ '' Likes'') = Some (long_count, ''Likes'')"
  unfolding long_count_cons by (simp add: ones_match)

lemma long_views_search:
  "count_search (long_count @ '' Views'') = Some (long_count, ''Views'')"
  unfolding long_count_cons by (simp add: ones_match)

lemma long_views_label: "stat_label (span_titled (long_count @ '' Views'')) = long_count @ '' Views''"
  by (simp add: stat_label_def span_titled_def get_attr_def)

lemma long_count_digits:
  "replace_del CHR ''.'' (replace_del CHR '','' long_count) = long_count"
  "length long_count = 4301"
  by (simp_all add: replace_del_def long_count_def)

lemma long_count_label: "stat_label (span_titled (long_count @ '' Likes'')) = long_count @ '' Likes''"
  by (simp add: stat_label_def span_titled_def get_attr_def)

lemma long_count_step:
  "int_max_str_digits env = 4300 \<Longrightarrow>
     stat_step env stats (span_titled (long_count @ '' Likes'')) = Inl ValueError"
  by (simp add: stat_step_def long_count_label long_count_search long_count_digits py_int_def)

lemma long_count_parse:
  "parse_nitter_html (env_serving long_count_page) self html sname = Inl ValueError"
proof -
  have "int_max_str_digits (env_serving long_count_page) = 4300"
    by (simp add: env_serving_def env_offline_def)
  then have "html_obj (env_serving long_count_page) long_count_page sname
               (sample_item \<lparr> tweet_stats := [span_titled (long_count @ '' Likes'')] \<rparr>)
             = Inl ValueError"
    by (simp add: html_obj_def item_stats_def long_count_step Let_def)
  then show ?thesis
    by (simp add: parse_nitter_html_def env_serving_def long_count_page_def Let_def)
qed

lemma html_loop_length:
  "html_loop env mp pg sname results its = Inr ps \<Longrightarrow> int (length results) < mp \<Longrightarrow>
     int (length ps) \<le> mp"
proof (induction its arbitrary: results)
  case Nil
  then show ?case by simp
next
  case (Cons it rest)
  from Cons.prems(1) obtain obj where obj: "html_obj env pg sname it = Inr obj"
    by (cases "html_obj env pg sname it") simp_all
  let ?rs = "if truthy (tweet_id obj) \<or> truthy (text_field obj) then results @ [obj] else results"
  from Cons.prems(2) have le: "int (length ?rs) \<le> mp" by simp
  show ?case
  proof (cases "mp \<le> int (length ?rs)")
    case True
    with Cons.prems(1) obj have "ps = ?rs" by (simp add: Let_def)
    with le show ?thesis by simp
  next
    case False
    with Cons.prems(1) obj have "html_loop env mp pg sname ?rs rest = Inr ps"
      by (simp add: Let_def)
    from Cons.IH [OF this] False show ?thesis by simp
  qed
qed

lemma parse_nitter_html_length:
  "parse_nitter_html env self html sname = Inr items \<Longrightarrow> 0 < max_posts self \<Longrightarrow>
     length items \<le> nat (max_posts self)"
  using html_loop_length [of env "max_posts self" "soup env html" sname "[]"
          "timeline (soup env html)" items]
  by (simp add: parse_nitter_html_def Let_def)

lemma normalize_alice: "normalize_screen_name ''alice'' = ''alice''"
  by (simp add: normalize_screen_name_def strip_def lstrip_char_def is_space_def ord_def)

lemma serving_get_html:
  "get_html (env_serving pg) url tr = (Inr ''<html>'', tr @ [Get url])"
  by (simp add: get_html_def get_html_attempt.simps env_serving_def)

lemma offline_get_html:
  "get_html env_offline url tr = (Inl HTTPError, tr @ [Get url, Get url, Get url])"
  by (simp add: get_html_def get_html_attempt.simps env_offline_def)

lemma sample_html_url: "html_url sample_fetcher ''alice'' = ''https://nitter.net/alice''"
  by (simp add: html_url_def sample_fetcher_def rstrip_char_def)

lemma sample_json_url:
  "json_url sample_fetcher ''alice'' = ''https://nitter.net/alice?_format=json''"
  by (simp add: json_url_def sample_fetcher_def rstrip_char_def)

text \<open>
  Claim C7. When the HTML strategy's parse yields at least one record (the client was
  built, the page was fetched, and \<open>_parse_nitter_html\<close> returned a non-empty list
  \<open>items\<close>), the chain returns that batch capped at \<open>max_posts\<close>: the first \<open>max_posts\<close>
  records of \<open>items\<close>, so never more than \<open>max_posts\<close> of them, and all of \<open>items\<close> when
  \<open>max_posts\<close> is positive, the parser having stopped at the cap by itself (a negative
  \<open>max_posts\<close> drops that many records from the end, as Python's slice does). Neither the
  JSON strategy nor the synthetic strategy is started: the trace holds no request for
  the JSON URL and no start of either strategy.
\<close>

theorem html_batch_ends_chain:
  assumes client: "mk_client env (proxy self) = Inr ()"
      and fetched: "get_html env (html_url self (normalize_screen_name sname0)) [Strategy Html]
                      = (Inr html, tr)"
      and parsed: "parse_nitter_html env self html (normalize_screen_name sname0) = Inr items"
      and nonempty: "items \<noteq> []"
  shows "(\<exists>ps. fetch_username env self sname0 = (Inr ps, tr)
            \<and> (0 \<le> max_posts self \<longrightarrow>
                  ps = take (nat (max_posts self)) items \<and> length ps \<le> nat (max_posts self))
            \<and> (0 < max_posts self \<longrightarrow> ps = items)
            \<and> (max_posts self < 0 \<longrightarrow> ps = take (length items - nat (- max_posts self)) items))
       \<and> Strategy Json \<notin> set tr \<and> Strategy Synthetic \<notin> set tr
       \<and> Get (json_url self (normalize_screen_name sname0)) \<notin> set tr"
proof -
  let ?sn = "normalize_screen_name sname0"
  let ?ps = "py_slice_to (max_posts self) items"
  have net: "network_strategies env self ?sn = (Inr (Some ?ps), tr)"
    using client fetched parsed nonempty by (simp add: network_strategies_def)
  have tr: "set tr = {Get (html_url self ?sn), Strategy Html}"
    using get_html_trace [OF fetched] by simp
  from net have res: "fetch_username env self sname0 = (Inr ?ps, tr)"
    by (simp add: fetch_username_def)
  have cap: "0 \<le> max_posts self \<longrightarrow>
               ?ps = take (nat (max_posts self)) items \<and> length ?ps \<le> nat (max_posts self)"
    by (simp add: py_slice_to_def)
  have whole: "0 < max_posts self \<longrightarrow> ?ps = items"
    using parse_nitter_html_length [OF parsed] by (simp add: py_slice_to_def)
  have neg: "max_posts self < 0 \<longrightarrow> ?ps = take (length items - nat (- max_posts self)) items"
    by (simp add: py_slice_to_def)
  from tr have "Strategy Json \<notin> set tr" "Strategy Synthetic \<notin> set tr"
    "Get (json_url self ?sn) \<notin> set tr"
    by (simp_all add: json_url_neq_html_url)
  with res cap whole neg show ?thesis by blast
qed

theorem html_batch_ends_chain_witness:
  "mk_client (env_serving crowded_page) (proxy sample_fetcher) = Inr ()
   \<and> get_html (env_serving crowded_page) (html_url sample_fetcher (normalize_screen_name ''alice''))
        [Strategy Html] = (Inr ''<html>'', [Strategy Html, Get ''https://nitter.net/alice''])
   \<and> parse_nitter_html (env_serving crowded_page) sample_fetcher ''<html>''
        (normalize_screen_name ''alice'') = Inr (replicate 3 (sample_record crowded_page ''alice''))
   \<and> length (timeline crowded_page) = 5
   \<and> fetch_username (env_serving crowded_page) sample_fetcher ''alice'' =
        (Inr (replicate 3 (sample_record crowded_page ''alice'')),
         [Strategy Html, Get ''https://nitter.net/alice''])
   \<and> parse_nitter_html (env_serving sample_page) zero_fetcher ''<html>''
        (normalize_screen_name ''alice'') = Inr [sample_record sample_page ''alice'']
   \<and> fetch_username (env_serving sample_page) zero_fetcher ''alice'' =
        (Inr [], [Strategy Html, Get ''https://nitter.net/alice''])"
proof -
  let ?env = "env_serving crowded_page"
  let ?tr = "[Strategy Html, Get ''https://nitter.net/alice'']"
  have h1: "mk_client (env_serving pg) (proxy self) = Inr ()" for pg self
    by (simp add: env_serving_def env_offline_def)
  have u0: "html_url zero_fetcher ''alice'' = ''https://nitter.net/alice''"
    by (simp add: html_url_def zero_fetcher_def rstrip_char_def)
  have h2: "get_html ?env (html_url sample_fetcher (normalize_screen_name ''alice''))
              [Strategy Html] = (Inr ''<html>'', ?tr)"
    by (simp add: serving_get_html normalize_alice sample_html_url)
  have h3: "parse_nitter_html ?env sample_fetcher ''<html>'' (normalize_screen_name ''alice'')
              = Inr (replicate 3 (sample_record crowded_page ''alice''))"
    by (simp add: crowded_parse normalize_alice)
  have h4: "replicate 3 (sample_record crowded_page ''alice'') \<noteq> []"
    by simp
  have len: "length (timeline crowded_page) = 5"
    by (simp add: crowded_page_def)
  have z2: "get_html (env_serving sample_page) (html_url zero_fetcher (normalize_screen_name ''alice''))
              [Strategy Html] = (Inr ''<html>'', ?tr)"
    by (simp add: serving_get_html normalize_alice u0)
  have z3: "parse_nitter_html (env_serving sample_page) zero_fetcher ''<html>''
              (normalize_screen_name ''alice'') = Inr [sample_record sample_page ''alice'']"
    by (simp add: zero_parse normalize_alice)
  have z4: "[sample_record sample_page ''alice''] \<noteq> []"
    by simp
  have p3: "0 < max_posts sample_fetcher"
    by (simp add: sample_fetcher_def)
  have p0: "0 \<le> max_posts zero_fetcher" "nat (max_posts zero_fetcher) = 0"
    by (simp_all add: zero_fetcher_def)
  from html_batch_ends_chain [OF h1 h2 h3 h4] p3
  have r1: "fetch_username ?env sample_fetcher ''alice'' =
              (Inr (replicate 3 (sample_record crowded_page ''alice'')), ?tr)"
    by auto
  from html_batch_ends_chain [OF h1 z2 z3 z4] p0
  have r2: "fetch_username (env_serving sample_page) zero_fetcher ''alice'' = (Inr [], ?tr)"
    by auto
  from h1 h2 h3 len r1 z3 r2 show ?thesis by simp
qed

text \<open>
  Claim C3, as the code has it. \<open>fetch_username\<close> raises nothing past its own boundary,
  configuration errors included: building the client and every request sit inside the
  outer \<open>try\<close>, whose \<open>except Exception\<close> logs and goes on. An exception while the client
  is built (an invalid proxy specification) or during the HTML fetch (an invalid base
  URL, exhausted retries) leads straight to the synthetic strategy, without the JSON
  strategy, and so does an exception of the HTML parser; an empty HTML parse leads to
  the JSON strategy; an exception or an empty result of the JSON strategy leads to the
  synthetic strategy. A fetch that ends in an HTTP error has made three requests.
\<close>

theorem chain_absorbs_every_exception:
  "(\<exists>ps tr. fetch_username env self sname0 = (Inr ps, tr))
   \<and> (\<forall>e. mk_client env (proxy self) = Inl e \<longrightarrow>
          fetch_username env self sname0 =
            (Inr (synthetic_posts env self (normalize_screen_name sname0)), [Strategy Synthetic]))
   \<and> (\<forall>e tr.
          mk_client env (proxy self) = Inr ()
          \<and> get_html env (html_url self (normalize_screen_name sname0)) [Strategy Html] = (Inl e, tr)
          \<longrightarrow>
          fetch_username env self sname0 =
            (Inr (synthetic_posts env self (normalize_screen_name sname0)), tr @ [Strategy Synthetic])
          \<and> Strategy Json \<notin> set tr)
   \<and> (\<forall>html tr r tr'.
          mk_client env (proxy self) = Inr ()
          \<and> get_html env (html_url self (normalize_screen_name sname0)) [Strategy Html] = (Inr html, tr)
          \<and> parse_nitter_html env self html (normalize_screen_name sname0) = Inr []
          \<and> json_strategy env self (normalize_screen_name sname0) (tr @ [Strategy Json]) = (r, tr')
          \<and> (\<forall>items. r \<noteq> Inr (Some items))
          \<longrightarrow>
          fetch_username env self sname0 =
            (Inr (synthetic_posts env self (normalize_screen_name sname0)), tr' @ [Strategy Synthetic]))
   \<and> (\<forall>html tr e.
          mk_client env (proxy self) = Inr ()
          \<and> get_html env (html_url self (normalize_screen_name sname0)) [Strategy Html] = (Inr html, tr)
          \<and> parse_nitter_html env self html (normalize_screen_name sname0) = Inl e
          \<longrightarrow>
          fetch_username env self sname0 =
            (Inr (synthetic_posts env self (normalize_screen_name sname0)), tr @ [Strategy Synthetic]))
   \<and> (\<forall>url tr tr'. get_html env url tr = (Inl HTTPError, tr') \<longrightarrow>
          tr' = tr @ [Get url, Get url, Get url])"
proof (intro conjI allI impI)
  show "\<exists>ps tr. fetch_username env self sname0 = (Inr ps, tr)"
    by (rule fetch_username_returns)
next
  fix e assume "mk_client env (proxy self) = Inl e"
  then show "fetch_username env self sname0 =
      (Inr (synthetic_posts env self (normalize_screen_name sname0)), [Strategy Synthetic])"
    by (simp add: fetch_username_def network_strategies_def)
next
  fix e tr
  assume a: "mk_client env (proxy self) = Inr ()
          \<and> get_html env (html_url self (normalize_screen_name sname0)) [Strategy Html] = (Inl e, tr)"
  then show "fetch_username env self sname0 =
      (Inr (synthetic_posts env self (normalize_screen_name sname0)), tr @ [Strategy Synthetic])"
    by (simp add: fetch_username_def network_strategies_def)
  from a have "get_html env (html_url self (normalize_screen_name sname0)) [Strategy Html] = (Inl e, tr)"
    by simp
  from get_html_trace [OF this] show "Strategy Json \<notin> set tr" by simp
next
  fix html tr r tr'
  assume a: "mk_client env (proxy self) = Inr ()
          \<and> get_html env (html_url self (normalize_screen_name sname0)) [Strategy Html] = (Inr html, tr)
          \<and> parse_nitter_html env self html (normalize_screen_name sname0) = Inr []
          \<and> json_strategy env self (normalize_screen_name sname0) (tr @ [Strategy Json]) = (r, tr')
          \<and> (\<forall>items. r \<noteq> Inr (Some items))"
  then have "network_strategies env self (normalize_screen_name sname0) = (Inr None, tr')"
    by (cases r) (auto simp add: network_strategies_def)
  then show "fetch_username env self sname0 =
      (Inr (synthetic_posts env self (normalize_screen_name sname0)), tr' @ [Strategy Synthetic])"
    by (simp add: fetch_username_def)
next
  fix html tr e
  assume "mk_client env (proxy self) = Inr ()
          \<and> get_html env (html_url self (normalize_screen_name sname0)) [Strategy Html] = (Inr html, tr)
          \<and> parse_nitter_html env self html (normalize_screen_name sname0) = Inl e"
  then show "fetch_username env self sname0 =
      (Inr (synthetic_posts env self (normalize_screen_name sname0)), tr @ [Strategy Synthetic])"
    by (simp add: fetch_username_def network_strategies_def)
next
  fix url tr tr' assume "get_html env url tr = (Inl HTTPError, tr')"
  then show "tr' = tr @ [Get url, Get url, Get url]"
    by (rule get_html_http_error_three)
qed

lemma normalize_jack: "normalize_screen_name ''jack'' = ''jack''"
  by (simp add: normalize_screen_name_def strip_def lstrip_char_def is_space_def ord_def)

theorem chain_absorbs_every_exception_witness:
  "mk_client env_bad_proxy (proxy sample_fetcher) = Inl ValueError
   \<and> fetch_username env_bad_proxy sample_fetcher ''alice'' =
       (Inr (synthetic_posts env_bad_proxy sample_fetcher ''alice''), [Strategy Synthetic])
   \<and> get_html env_offline (html_url sample_fetcher (normalize_screen_name ''alice'')) [Strategy Html]
       = (Inl HTTPError, [Strategy Html, Get ''https://nitter.net/alice'',
                          Get ''https://nitter.net/alice'', Get ''https://nitter.net/alice''])
   \<and> snd (get_html env_offline ''https://nitter.net/alice'' [Strategy Html])
       = [Strategy Html, Get ''https://nitter.net/alice'', Get ''https://nitter.net/alice'',
          Get ''https://nitter.net/alice'']
   \<and> fetch_username env_offline sample_fetcher ''alice'' =
       (Inr (synthetic_posts env_offline sample_fetcher ''alice''),
        [Strategy Html, Get ''https://nitter.net/alice'', Get ''https://nitter.net/alice'',
         Get ''https://nitter.net/alice'', Strategy Synthetic])
   \<and> json_strategy (env_serving empty_page) sample_fetcher (normalize_screen_name ''alice'')
         [Strategy Html, Get ''https://nitter.net/alice'', Strategy Json]
       = (Inl ValueError, [Strategy Html, Get ''https://nitter.net/alice'', Strategy Json,
                           Get ''https://nitter.net/alice?_format=json''])
   \<and> fetch_username (env_serving empty_page) sample_fetcher ''alice'' =
       (Inr (synthetic_posts (env_serving empty_page) sample_fetcher ''alice''),
        [Strategy Html, Get ''https://nitter.net/alice'', Strategy Json,
         Get ''https://nitter.net/alice?_format=json'', Strategy Synthetic])
   \<and> parse_nitter_html (env_serving long_count_page) sample_fetcher ''<html>''
         (normalize_screen_name ''alice'') = Inl ValueError
   \<and> fetch_username (env_serving long_count_page) sample_fetcher ''alice'' =
       (Inr (synthetic_posts (env_serving long_count_page) sample_fetcher ''alice''),
        [Strategy Html, Get ''https://nitter.net/alice'', Strategy Synthetic])"
proof -
  let ?sn = "normalize_screen_name ''alice''"
  let ?srv = "env_serving empty_page"
  let ?lng = "env_serving long_count_page"
  have c4: "mk_client ?lng (proxy sample_fetcher) = Inr ()"
    by (simp add: env_serving_def env_offline_def)
  have g4: "get_html ?lng (html_url sample_fetcher ?sn) [Strategy Html]
       = (Inr ''<html>'', [Strategy Html, Get ''https://nitter.net/alice''])"
    by (simp add: serving_get_html normalize_alice sample_html_url)
  have e4: "parse_nitter_html ?lng sample_fetcher ''<html>'' ?sn = Inl ValueError"
    by (rule long_count_parse)
  have p1: "mk_client env_bad_proxy (proxy sample_fetcher) = Inl ValueError"
    by (simp add: env_bad_proxy_def)
  have c2: "mk_client env_offline (proxy sample_fetcher) = Inr ()"
    by (simp add: env_offline_def)
  have g2: "get_html env_offline (html_url sample_fetcher ?sn) [Strategy Html]
       = (Inl HTTPError, [Strategy Html, Get ''https://nitter.net/alice'',
                          Get ''https://nitter.net/alice'', Get ''https://nitter.net/alice''])"
    by (simp add: offline_get_html normalize_alice sample_html_url)
  have c3: "mk_client ?srv (proxy sample_fetcher) = Inr ()"
    by (simp add: env_serving_def env_offline_def)
  have g3: "get_html ?srv (html_url sample_fetcher ?sn) [Strategy Html]
       = (Inr ''<html>'', [Strategy Html, Get ''https://nitter.net/alice''])"
    by (simp add: serving_get_html normalize_alice sample_html_url)
  have e3: "parse_nitter_html ?srv sample_fetcher ''<html>'' ?sn = Inr []"
    by (rule empty_parse)
  have j3: "json_strategy ?srv sample_fetcher ?sn
              ([Strategy Html, Get ''https://nitter.net/alice''] @ [Strategy Json])
       = (Inl ValueError, [Strategy Html, Get ''https://nitter.net/alice'', Strategy Json,
                           Get ''https://nitter.net/alice?_format=json''])"
    by (simp add: json_strategy_def serving_get_html normalize_alice sample_json_url)
       (simp add: env_serving_def env_offline_def)
  have n3: "\<forall>items. (Inl ValueError :: exn + post list option) \<noteq> Inr (Some items)"
    by simp
  note thm1 = chain_absorbs_every_exception [of env_bad_proxy sample_fetcher "''alice''"]
  note thm2 = chain_absorbs_every_exception [of env_offline sample_fetcher "''alice''"]
  note thm3 = chain_absorbs_every_exception [of ?srv sample_fetcher "''alice''"]
  note thm4 = chain_absorbs_every_exception [of ?lng sample_fetcher "''alice''"]
  note three = thm2 [THEN conjunct2, THEN conjunct2, THEN conjunct2, THEN conjunct2,
                     THEN conjunct2, rule_format]
  obtain tr' where e2: "get_html env_offline ''https://nitter.net/alice'' [Strategy Html]
                          = (Inl HTTPError, tr')"
    by (simp add: offline_get_html)
  from three [OF e2] have "tr' = [Strategy Html, Get ''https://nitter.net/alice'',
         Get ''https://nitter.net/alice'', Get ''https://nitter.net/alice'']"
    by simp
  with e2 have t2: "snd (get_html env_offline ''https://nitter.net/alice'' [Strategy Html])
      = [Strategy Html, Get ''https://nitter.net/alice'', Get ''https://nitter.net/alice'',
         Get ''https://nitter.net/alice'']"
    by simp
  have r1: "fetch_username env_bad_proxy sample_fetcher ''alice'' =
       (Inr (synthetic_posts env_bad_proxy sample_fetcher ?sn), [Strategy Synthetic])"
    using thm1 p1 by blast
  have r2: "fetch_username env_offline sample_fetcher ''alice'' =
       (Inr (synthetic_posts env_offline sample_fetcher ?sn),
        [Strategy Html, Get ''https://nitter.net/alice'', Get ''https://nitter.net/alice'',
         Get ''https://nitter.net/alice''] @ [Strategy Synthetic])"
    using thm2 c2 g2 by blast
  have r3: "fetch_username ?srv sample_fetcher ''alice'' =
       (Inr (synthetic_posts ?srv sample_fetcher ?sn),
        [Strategy Html, Get ''https://nitter.net/alice'', Strategy Json,
         Get ''https://nitter.net/alice?_format=json''] @ [Strategy Synthetic])"
    using thm3 c3 g3 e3 j3 n3 by blast
  have r4: "fetch_username ?lng sample_fetcher ''alice'' =
       (Inr (synthetic_posts ?lng sample_fetcher ?sn),
        [Strategy Html, Get ''https://nitter.net/alice''] @ [Strategy Synthetic])"
    using thm4 c4 g4 e4 by blast
  from p1 g2 j3 r1 r2 r3 t2 e4 r4 show ?thesis
    by (simp add: normalize_alice)
qed

text \<open>
  Claim C3 as stated fails: with a proxy specification that the HTTP client rejects, the
  chain does not raise; it returns the synthetic batch. And when every request fails with
  an HTTP error (as for a base URL of an unsupported protocol), the request is made three
  times before the chain goes on to the synthetic strategy.
\<close>

theorem config_error_is_caught:
  "fetch_username env_bad_proxy sample_fetcher ''jack'' =
     (Inr (synthetic_posts env_bad_proxy sample_fetcher ''jack''), [Strategy Synthetic])
   \<and> snd (fetch_username env_offline sample_fetcher ''jack'') =
       [Strategy Html, Get ''https://nitter.net/jack'', Get ''https://nitter.net/jack'',
        Get ''https://nitter.net/jack'', Strategy Synthetic]"
proof -
  have c: "mk_client env_offline (proxy sample_fetcher) = Inr ()"
    by (simp add: env_offline_def)
  have u: "html_url sample_fetcher ''jack'' = ''https://nitter.net/jack''"
    by (simp add: html_url_def sample_fetcher_def rstrip_char_def)
  have "fetch_username env_bad_proxy sample_fetcher ''jack'' =
     (Inr (synthetic_posts env_bad_proxy sample_fetcher ''jack''), [Strategy Synthetic])"
    by (simp add: fetch_username_def network_strategies_def env_bad_proxy_def normalize_jack)
  moreover have "snd (fetch_username env_offline sample_fetcher ''jack'') =
       [Strategy Html, Get ''https://nitter.net/jack'', Get ''https://nitter.net/jack'',
        Get ''https://nitter.net/jack'', Strategy Synthetic]"
    by (simp add: fetch_username_def network_strategies_def normalize_jack c u offline_get_html Let_def)
  ultimately show ?thesis by simp
qed

text \<open>
  Claim C8 fails on the code at an input where whitespace precedes the \<open>@\<close>:
  \<open>lstrip("@")\<close> runs before \<open>strip()\<close>, finds a space first and removes nothing, so the
  handle that is fetched keeps its \<open>@\<close>.
\<close>

theorem normalize_keeps_at_after_space:
  "normalize_screen_name '' @jack'' = ''@jack''
   \<and> html_url sample_fetcher (normalize_screen_name '' @jack'') = ''https://nitter.net/@jack''"
  by (simp add: normalize_screen_name_def strip_def lstrip_char_def is_space_def ord_def
        html_url_def rstrip_char_def sample_fetcher_def)

section \<open>Properties of the HTML strategy\<close>

lemma int_of_digits_snoc: "int_of_digits (ds @ [d]) = 10 * int_of_digits ds + digit_val d"
  by (simp add: int_of_digits_def)

lemma dec_value_snoc: "dec_value (ds @ [d]) = 10 * dec_value ds + digit_val d"
proof -
  have "(\<Sum>i < length ds. digit_val ((ds @ [d]) ! i) * 10 ^ (length ds - i))
      = (\<Sum>i < length ds. 10 * (digit_val (ds ! i) * 10 ^ (length ds - 1 - i)))"
  proof (rule sum.cong)
    fix i assume "i \<in> {..<length ds}"
    then have i: "i < length ds" by simp
    then have "length ds - i = Suc (length ds - 1 - i)" by simp
    with i show "digit_val ((ds @ [d]) ! i) * 10 ^ (length ds - i)
               = 10 * (digit_val (ds ! i) * 10 ^ (length ds - 1 - i))"
      by (simp add: nth_append)
  qed simp
  then show ?thesis
    by (simp add: dec_value_def sum_distrib_left)
qed

lemma int_of_digits_dec_value: "int_of_digits ds = dec_value ds"
proof (induction ds rule: rev_induct)
  case Nil
  show ?case by (simp add: int_of_digits_def dec_value_def)
next
  case (snoc d ds)
  then show ?case by (simp add: int_of_digits_snoc dec_value_snoc)
qed

lemma is_digit_not_sep: "is_digit c \<Longrightarrow> c \<noteq> CHR '','' \<and> c \<noteq> CHR ''.''"
  by (auto simp: is_digit_def ord_def)

lemma match_count_shape:
  assumes "match_count s = Some (g1, g2)"
  shows "\<exists>sp post. s = g1 @ sp @ g2 @ post
           \<and> g1 \<noteq> [] \<and> is_digit (hd g1) \<and> (\<forall>c \<in> set g1. is_numch c)
           \<and> sp \<noteq> [] \<and> (\<forall>c \<in> set sp. is_space c)
           \<and> g2 \<noteq> [] \<and> (\<forall>c \<in> set g2. is_word c)"
proof (cases s)
  case Nil
  with assms show ?thesis by (simp add: match_count_def)
next
  case (Cons c cs)
  let ?r1 = "dropWhile is_numch cs"
  let ?r2 = "dropWhile is_space ?r1"
  from assms Cons have d: "is_digit c"
    and g1: "g1 = c # takeWhile is_numch cs"
    and sp: "takeWhile is_space ?r1 \<noteq> []"
    and g2: "g2 = takeWhile is_word ?r2" "g2 \<noteq> []"
    by (auto simp: match_count_def Let_def split: if_splits)
  have "cs = takeWhile is_numch cs @ takeWhile is_space ?r1 @ takeWhile is_word ?r2
               @ dropWhile is_word ?r2"
    by simp
  with Cons g1 g2 have dec: "s = g1 @ takeWhile is_space ?r1 @ g2 @ dropWhile is_word ?r2"
    by simp
  have ne: "g1 \<noteq> []" and hd: "is_digit (hd g1)"
    using d g1 by simp_all
  have n1: "\<forall>c \<in> set g1. is_numch c"
    using d g1 by (auto simp: is_numch_def dest: set_takeWhileD)
  have n2: "\<forall>c \<in> set (takeWhile is_space ?r1). is_space c"
    by (auto dest: set_takeWhileD)
  have n3: "\<forall>c \<in> set g2. is_word c"
    using g2 by (auto dest: set_takeWhileD)
  from dec ne hd n1 sp n2 g2(2) n3 show ?thesis by blast
qed

lemma count_search_shape:
  "count_search s = Some (g1, g2) \<Longrightarrow>
     \<exists>pre sp post. s = pre @ g1 @ sp @ g2 @ post
           \<and> g1 \<noteq> [] \<and> is_digit (hd g1) \<and> (\<forall>c \<in> set g1. is_numch c)
           \<and> sp \<noteq> [] \<and> (\<forall>c \<in> set sp. is_space c)
           \<and> g2 \<noteq> [] \<and> (\<forall>c \<in> set g2. is_word c)"
proof (induction s)
  case Nil
  then show ?case by simp
next
  case (Cons c cs)
  show ?case
  proof (cases "match_count (c # cs)")
    case (Some m)
    with Cons.prems have "match_count (c # cs) = Some (g1, g2)" by simp
    from match_count_shape [OF this] show ?thesis
      by (metis append_Nil)
  next
    case None
    with Cons.prems have "count_search cs = Some (g1, g2)" by simp
    from Cons.IH [OF this] obtain pre sp post where
      "cs = pre @ g1 @ sp @ g2 @ post" and rest: "g1 \<noteq> []" "is_digit (hd g1)"
      "\<forall>c \<in> set g1. is_numch c" "sp \<noteq> []" "\<forall>c \<in> set sp. is_space c"
      "g2 \<noteq> []" "\<forall>c \<in> set g2. is_word c"
      by blast
    then have "c # cs = (c # pre) @ g1 @ sp @ g2 @ post" by simp
    with rest show ?thesis by blast
  qed
qed

lemma replace_del_both:
  "replace_del CHR ''.'' (replace_del CHR '','' g) = filter (\<lambda>c. c \<noteq> CHR '','' \<and> c \<noteq> CHR ''.'') g"
  by (simp add: replace_del_def)

lemma numeric_group_digits:
  assumes "g1 \<noteq> []" "is_digit (hd g1)" "\<forall>c \<in> set g1. is_numch c"
  shows "filter (\<lambda>c. c \<noteq> CHR '','' \<and> c \<noteq> CHR ''.'') g1 \<noteq> []
       \<and> (\<forall>c \<in> set (filter (\<lambda>c. c \<noteq> CHR '','' \<and> c \<noteq> CHR ''.'') g1). is_digit c)"
proof -
  from assms(1,2) have "hd g1 \<in> set (filter (\<lambda>c. c \<noteq> CHR '','' \<and> c \<noteq> CHR ''.'') g1)"
    by (cases g1) (auto dest: is_digit_not_sep)
  then have "filter (\<lambda>c. c \<noteq> CHR '','' \<and> c \<noteq> CHR ''.'') g1 \<noteq> []"
    by (metis empty_iff empty_set)
  moreover from assms(3) have
    "\<forall>c \<in> set (filter (\<lambda>c. c \<noteq> CHR '','' \<and> c \<noteq> CHR ''.'') g1). is_digit c"
    by (auto simp: is_numch_def)
  ultimately show ?thesis by simp
qed

text \<open>
  Claim C9, as the code has it. Let the count regex match a stat node's label with
  numeric group \<open>g1\<close> and word \<open>g2\<close>. Deleting every comma and every period from \<open>g1\<close>
  leaves a non-empty string of digits. When that string has no more digits than the
  interpreter's limit for \<open>int\<close> (or the limit is off), the extracted count is the decimal
  number the string denotes; it is stored under \<open>favorites\<close>, \<open>retweets\<close>, \<open>replies\<close> or
  \<open>quotes\<close> according to the first of \<open>like\<close>, \<open>retweet\<close>, \<open>repl\<close>, \<open>quote\<close> that the
  lower-cased word contains, and a word that contains none of them leaves the counts as
  they were. So \<open>12,345 Likes\<close> gives 12345, and \<open>1.234 Likes\<close> gives 1234: a period is
  dropped like a comma. When the string has more digits than the limit, \<open>int\<close> raises
  \<open>ValueError\<close> and nothing is extracted, whatever the word is.
\<close>

theorem stat_count_extraction:
  assumes "count_search (stat_label s) = Some (g1, g2)"
  shows "let digits = filter (\<lambda>c. c \<noteq> CHR '','' \<and> c \<noteq> CHR ''.'') g1;
             val = PInt (int (dec_value digits));
             kind = lower g2
         in digits \<noteq> [] \<and> (\<forall>c \<in> set digits. is_digit c)
          \<and> (int_max_str_digits env = 0 \<or> length digits \<le> int_max_str_digits env \<longrightarrow>
                stat_step env stats s =
                  Inr (if contains ''like'' kind then stats(''favorites'' := val)
                       else if contains ''retweet'' kind then stats(''retweets'' := val)
                       else if contains ''repl'' kind then stats(''replies'' := val)
                       else if contains ''quote'' kind then stats(''quotes'' := val)
                       else stats))
          \<and> (0 < int_max_str_digits env \<and> int_max_str_digits env < length digits \<longrightarrow>
                stat_step env stats s = Inl ValueError)"
proof -
  let ?digits = "filter (\<lambda>c. c \<noteq> CHR '','' \<and> c \<noteq> CHR ''.'') g1"
  let ?val = "PInt (int (dec_value ?digits))"
  from assms have label: "stat_label s \<noteq> []" by auto
  from count_search_shape [OF assms] have "g1 \<noteq> []" "is_digit (hd g1)" "\<forall>c \<in> set g1. is_numch c"
    by blast+
  from numeric_group_digits [OF this] have digits:
    "?digits \<noteq> []" "\<forall>c \<in> set ?digits. is_digit c"
    by simp_all
  have within: "stat_step env stats s =
     Inr (if contains ''like'' (lower g2) then stats(''favorites'' := ?val)
          else if contains ''retweet'' (lower g2) then stats(''retweets'' := ?val)
          else if contains ''repl'' (lower g2) then stats(''replies'' := ?val)
          else if contains ''quote'' (lower g2) then stats(''quotes'' := ?val)
          else stats)"
    if "int_max_str_digits env = 0 \<or> length ?digits \<le> int_max_str_digits env"
    using assms label that
    by (auto simp add: stat_step_def Let_def replace_del_both py_int_def int_of_digits_dec_value)
  have beyond: "stat_step env stats s = Inl ValueError"
    if "0 < int_max_str_digits env \<and> int_max_str_digits env < length ?digits"
    using assms label that
    by (simp add: stat_step_def Let_def replace_del_both py_int_def)
  from digits within beyond show ?thesis by (simp add: Let_def)
qed

lemma dec_value_12345: "dec_value ''12345'' = 12345"
  by (simp add: int_of_digits_dec_value [symmetric] int_of_digits_def digit_val_def ord_def)

lemma dec_value_1234: "dec_value ''1234'' = 1234"
  by (simp add: int_of_digits_dec_value [symmetric] int_of_digits_def digit_val_def ord_def)

theorem stat_count_extraction_witness:
  "count_search (stat_label (span_titled ''12,345 Likes'')) = Some (''12,345'', ''Likes'')
   \<and> stat_step env_offline stats0 (span_titled ''12,345 Likes'') = Inr (stats0(''favorites'' := PInt 12345))
   \<and> count_search (stat_label (span_titled ''1.234 Likes'')) = Some (''1.234'', ''Likes'')
   \<and> stat_step env_offline stats0 (span_titled ''1.234 Likes'') = Inr (stats0(''favorites'' := PInt 1234))
   \<and> count_search (stat_label (span_titled ''7 Views'')) = Some (''7'', ''Views'')
   \<and> stat_step env_offline stats0 (span_titled ''7 Views'') = Inr stats0
   \<and> count_search (stat_label (span_titled (long_count @ '' Views''))) = Some (long_count, ''Views'')
   \<and> int_max_str_digits env_offline = 4300
   \<and> length long_count = 4301
   \<and> stat_step env_offline stats0 (span_titled (long_count @ '' Views'')) = Inl ValueError"
proof -
  have lim: "int_max_str_digits env_offline = 4300"
    by (simp add: env_offline_def)
  have m1: "count_search (stat_label (span_titled ''12,345 Likes'')) = Some (''12,345'', ''Likes'')"
    by (simp add: stat_label_def span_titled_def get_attr_def match_count_def char_class_defs)
  have m2: "count_search (stat_label (span_titled ''1.234 Likes'')) = Some (''1.234'', ''Likes'')"
    by (simp add: stat_label_def span_titled_def get_attr_def match_count_def char_class_defs)
  have m3: "count_search (stat_label (span_titled ''7 Views'')) = Some (''7'', ''Views'')"
    by (simp add: stat_label_def span_titled_def get_attr_def match_count_def char_class_defs)
  have m4: "count_search (stat_label (span_titled (long_count @ '' Views''))) = Some (long_count, ''Views'')"
    by (simp add: long_views_label long_views_search)
  have k1: "lower ''Likes'' = ''likes''" and k3: "lower ''Views'' = ''views''"
    by (simp_all add: char_class_defs)
  have d4: "filter (\<lambda>c. c \<noteq> CHR '','' \<and> c \<noteq> CHR ''.'') long_count = long_count"
    by (simp add: long_count_def)
  from stat_count_extraction [OF m1, of env_offline stats0] lim
  have r1: "stat_step env_offline stats0 (span_titled ''12,345 Likes'')
              = Inr (stats0(''favorites'' := PInt 12345))"
    by (simp add: Let_def k1 dec_value_12345)
  from stat_count_extraction [OF m2, of env_offline stats0] lim
  have r2: "stat_step env_offline stats0 (span_titled ''1.234 Likes'')
              = Inr (stats0(''favorites'' := PInt 1234))"
    by (simp add: Let_def k1 dec_value_1234)
  from stat_count_extraction [OF m3, of env_offline stats0] lim
  have r3: "stat_step env_offline stats0 (span_titled ''7 Views'') = Inr stats0"
    by (simp add: Let_def k3)
  from stat_count_extraction [OF m4, of env_offline stats0] lim
  have r4: "stat_step env_offline stats0 (span_titled (long_count @ '' Views'')) = Inl ValueError"
    by (simp add: Let_def d4 long_count_digits)
  from m1 m2 m3 m4 r1 r2 r3 r4 lim long_count_digits(2) show ?thesis by simp
qed

text \<open>
  Claim C9 as stated fails for a matched label whose numeric group is longer than the
  limit of \<open>int\<close>: with the default limit of 4300 digits, the label of 4301 ones followed
  by \<open>Likes\<close> is matched by the regex, no count is extracted, the parser raises
  \<open>ValueError\<close>, and the chain goes on to the synthetic strategy.
\<close>

theorem long_count_is_not_extracted:
  "count_search (stat_label (span_titled (long_count @ '' Likes''))) = Some (long_count, ''Likes'')
   \<and> stat_step env_offline stats0 (span_titled (long_count @ '' Likes'')) = Inl ValueError
   \<and> parse_nitter_html (env_serving long_count_page) sample_fetcher ''<html>'' ''alice''
       = Inl ValueError
   \<and> fst (fetch_username (env_serving long_count_page) sample_fetcher ''alice'')
       = Inr (synthetic_posts (env_serving long_count_page) sample_fetcher ''alice'')"
proof -
  let ?env = "env_serving long_count_page"
  have lim: "int_max_str_digits env_offline = 4300"
    by (simp add: env_offline_def)
  have c: "mk_client ?env (proxy sample_fetcher) = Inr ()"
    by (simp add: env_serving_def env_offline_def)
  have "fst (fetch_username ?env sample_fetcher ''alice'')
          = Inr (synthetic_posts ?env sample_fetcher ''alice'')"
    by (simp add: fetch_username_def network_strategies_def normalize_alice c serving_get_html
          long_count_parse Let_def)
  with long_count_search long_count_step [OF lim] long_count_parse show ?thesis
    by (simp add: long_count_label)
qed

subsection \<open>Every record comes from one source item\<close>

lemma html_loop_members:
  "html_loop env mp pg sname results its = Inr ps \<Longrightarrow> p \<in> set ps \<Longrightarrow>
     p \<in> set results \<or> (\<exists>it \<in> set its. html_obj env pg sname it = Inr p)"
proof (induction its arbitrary: results)
  case Nil
  then show ?case by simp
next
  case (Cons it rest)
  from Cons.prems(1) obtain obj where obj: "html_obj env pg sname it = Inr obj"
    by (cases "html_obj env pg sname it") simp_all
  let ?rs = "if truthy (tweet_id obj) \<or> truthy (text_field obj) then results @ [obj] else results"
  have sub: "set ?rs \<subseteq> insert obj (set results)" by auto
  show ?case
  proof (cases "mp \<le> int (length ?rs)")
    case True
    with Cons.prems obj have "p \<in> set ?rs" by (simp add: Let_def)
    with sub obj show ?thesis by auto
  next
    case False
    with Cons.prems(1) obj have "html_loop env mp pg sname ?rs rest = Inr ps"
      by (simp add: Let_def)
    from Cons.IH [OF this Cons.prems(2)] sub obj show ?thesis by auto
  qed
qed

lemma parse_nitter_html_members:
  "parse_nitter_html env self html sname = Inr ps \<Longrightarrow> p \<in> set ps \<Longrightarrow>
     \<exists>it \<in> set (timeline (soup env html)). html_obj env (soup env html) sname it = Inr p"
  by (auto simp: parse_nitter_html_def Let_def dest: html_loop_members)



lemma json_obj_Inr_dict: "json_obj env sname tw = Inr p \<Longrightarrow> \<exists>d. tw = PDict d"
  by (cases tw) (simp_all add: json_obj_def)

lemma json_loop_members:
  "json_loop env mp sname results tws = Inr ps \<Longrightarrow> p \<in> set ps \<Longrightarrow>
     p \<in> set results \<or> (\<exists>tw \<in> set tws. json_obj env sname tw = Inr p)"
proof (induction tws arbitrary: results)
  case Nil
  then show ?case by simp
next
  case (Cons tw rest)
  from Cons.prems(1) obtain obj where obj: "json_obj env sname tw = Inr obj"
    by (cases "json_obj env sname tw") simp_all
  show ?case
  proof (cases "mp \<le> int (length (results @ [obj]))")
    case True
    with Cons.prems obj have "p \<in> set (results @ [obj])" by (auto simp: Let_def)
    with obj show ?thesis by auto
  next
    case False
    with Cons.prems(1) obj have "json_loop env mp sname (results @ [obj]) rest = Inr ps"
      by (simp add: Let_def)
    from Cons.IH [OF this Cons.prems(2)] obj show ?thesis by auto
  qed
qed

lemma parse_nitter_json_members:
  assumes "py_iter (select_items data) = Inr items"
      and "parse_nitter_json env self data sname = Inr ps"
      and "p \<in> set ps"
  shows "\<exists>d. PDict d \<in> set items \<and> json_obj env sname (PDict d) = Inr p"
proof -
  from assms(1,2) have "json_loop env (max_posts self) sname [] items = Inr ps"
    by (simp add: parse_nitter_json_def)
  from json_loop_members [OF this assms(3)] obtain tw where
    tw: "tw \<in> set items" "json_obj env sname tw = Inr p" by auto
  from json_obj_Inr_dict [OF tw(2)] tw show ?thesis by auto
qed


section \<open>The engagement counts\<close>

lemma stat_step_nonneg:
  "stat_step env stats s = Inr stats' \<Longrightarrow> stats_nonneg stats \<Longrightarrow> stats_nonneg stats'"
  by (auto simp: stat_step_def Let_def stats_nonneg_def nonneg_int_def
           split: option.splits prod.splits sum.splits if_splits)

lemma stats_loop_nonneg:
  "stats_loop env stats spans = Inr stats' \<Longrightarrow> stats_nonneg stats \<Longrightarrow> stats_nonneg stats'"
proof (induction spans arbitrary: stats)
  case Nil
  then show ?case by simp
next
  case (Cons s spans)
  from Cons.prems(1) obtain st where st: "stat_step env stats s = Inr st"
    by (cases "stat_step env stats s") simp_all
  with Cons.prems(1) have "stats_loop env st spans = Inr stats'" by simp
  from Cons.IH [OF this stat_step_nonneg [OF st Cons.prems(2)]] show ?case .
qed

lemma stat_step_other:
  "stat_step env stats s = Inr stats' \<Longrightarrow> stat_key s \<noteq> Some k \<Longrightarrow> stats' k = stats k"
  by (auto simp: stat_step_def stat_key_def Let_def
           split: option.splits prod.splits sum.splits if_splits)

lemma stats_loop_other:
  "stats_loop env stats spans = Inr stats' \<Longrightarrow> \<forall>s \<in> set spans. stat_key s \<noteq> Some k \<Longrightarrow>
     stats' k = stats k"
proof (induction spans arbitrary: stats)
  case Nil
  then show ?case by simp
next
  case (Cons s spans)
  from Cons.prems(1) obtain st where st: "stat_step env stats s = Inr st"
    by (cases "stat_step env stats s") simp_all
  with Cons.prems(1) have loop: "stats_loop env st spans = Inr stats'" by simp
  from Cons.prems(2) have "stat_key s \<noteq> Some k" "\<forall>s \<in> set spans. stat_key s \<noteq> Some k"
    by simp_all
  with Cons.IH [OF loop] stat_step_other [OF st] show ?case by simp
qed

lemma html_obj_stats:
  "html_obj env pg sname it = Inr p \<Longrightarrow>
     \<exists>stats. item_stats env it = Inr stats
       \<and> favorites p = stats ''favorites'' \<and> replies p = stats ''replies''
       \<and> retweets p = stats ''retweets'' \<and> quotes p = stats ''quotes''"
  by (auto simp: html_obj_def Let_def split: sum.splits)

lemma html_obj_counts_nonneg: "html_obj env pg sname it = Inr p \<Longrightarrow> counts_nonneg p"
proof -
  assume "html_obj env pg sname it = Inr p"
  from html_obj_stats [OF this] obtain stats where
    stats: "stats_loop env stats0 (tweet_stats it) = Inr stats"
      "favorites p = stats ''favorites''" "replies p = stats ''replies''"
      "retweets p = stats ''retweets''" "quotes p = stats ''quotes''"
    by (auto simp: item_stats_def)
  have "stats_nonneg stats0"
    by (simp add: stats_nonneg_def stats0_def nonneg_int_def)
  from stats_loop_nonneg [OF stats(1) this] stats(2-) show ?thesis
    by (simp add: counts_nonneg_def stats_nonneg_def)
qed

lemma html_obj_default_zero:
  assumes "html_obj env pg sname it = Inr p"
  shows "((\<forall>s \<in> set (tweet_stats it). stat_key s \<noteq> Some ''favorites'') \<longrightarrow> favorites p = PInt 0)
       \<and> ((\<forall>s \<in> set (tweet_stats it). stat_key s \<noteq> Some ''replies'') \<longrightarrow> replies p = PInt 0)
       \<and> ((\<forall>s \<in> set (tweet_stats it). stat_key s \<noteq> Some ''retweets'') \<longrightarrow> retweets p = PInt 0)
       \<and> ((\<forall>s \<in> set (tweet_stats it). stat_key s \<noteq> Some ''quotes'') \<longrightarrow> quotes p = PInt 0)"
proof -
  from html_obj_stats [OF assms] obtain stats where
    stats: "stats_loop env stats0 (tweet_stats it) = Inr stats"
      "favorites p = stats ''favorites''" "replies p = stats ''replies''"
      "retweets p = stats ''retweets''" "quotes p = stats ''quotes''"
    by (auto simp: item_stats_def)
  have zero: "stats0 ''favorites'' = PInt 0" "stats0 ''replies'' = PInt 0"
    "stats0 ''retweets'' = PInt 0" "stats0 ''quotes'' = PInt 0"
    by (simp_all add: stats0_def)
  from stats_loop_other [OF stats(1)] stats(2-) zero show ?thesis by simp
qed

lemma synthetic_obj_counts_nonneg: "counts_nonneg (synthetic_obj env sname base_id i)"
  by (simp add: counts_nonneg_def synthetic_obj_def Let_def nonneg_int_def pos_imp_zdiv_nonneg_iff)

lemma json_obj_counts:
  "json_obj env sname (PDict d) = Inr p \<Longrightarrow>
     favorites p = py_or (py_or (dict_get d ''likes'') (dict_get d ''favorites'')) (PInt 0)
   \<and> replies p = py_or (dict_get d ''replies'') (PInt 0)
   \<and> retweets p = py_or (dict_get d ''retweets'') (PInt 0)
   \<and> quotes p = py_or (dict_get d ''quotes'') (PInt 0)"
  by (auto simp: json_obj_def Let_def split: pyval.splits option.splits)

text \<open>
  Claim C5, as the code has it. Every record of the HTML strategy comes from one
  timeline item and has non-negative integers in \<open>replies\<close>, \<open>retweets\<close>, \<open>quotes\<close> and
  \<open>favorites\<close>, and a count that no stat span of the item addresses is 0. Every record of
  the synthetic strategy has non-negative integers there too. The JSON strategy does not
  check its counts: each record comes from one source object, and each count is the
  source's value when that value is truthy (for \<open>favorites\<close>: \<open>likes\<close>, else
  \<open>favorites\<close>) and 0 otherwise, so 0 when the key is absent.
\<close>

theorem engagement_counts_by_strategy:
  "(\<forall>ps. parse_nitter_html env self html sname = Inr ps \<longrightarrow>
      (\<forall>p \<in> set ps. \<exists>it \<in> set (timeline (soup env html)).
          html_obj env (soup env html) sname it = Inr p
          \<and> counts_nonneg p
          \<and> ((\<forall>s \<in> set (tweet_stats it). stat_key s \<noteq> Some ''favorites'') \<longrightarrow> favorites p = PInt 0)
          \<and> ((\<forall>s \<in> set (tweet_stats it). stat_key s \<noteq> Some ''replies'') \<longrightarrow> replies p = PInt 0)
          \<and> ((\<forall>s \<in> set (tweet_stats it). stat_key s \<noteq> Some ''retweets'') \<longrightarrow> retweets p = PInt 0)
          \<and> ((\<forall>s \<in> set (tweet_stats it). stat_key s \<noteq> Some ''quotes'') \<longrightarrow> quotes p = PInt 0)))
   \<and> (\<forall>p \<in> set (synthetic_posts env self sname). counts_nonneg p)
   \<and> (\<forall>items ps.
         py_iter (select_items data) = Inr items \<and> parse_nitter_json env self data sname = Inr ps
         \<longrightarrow> (\<forall>p \<in> set ps. \<exists>d. PDict d \<in> set items
                \<and> favorites p = py_or (py_or (dict_get d ''likes'') (dict_get d ''favorites'')) (PInt 0)
                \<and> replies p = py_or (dict_get d ''replies'') (PInt 0)
                \<and> retweets p = py_or (dict_get d ''retweets'') (PInt 0)
                \<and> quotes p = py_or (dict_get d ''quotes'') (PInt 0)
                \<and> (map_of d ''likes'' = None \<and> map_of d ''favorites'' = None \<longrightarrow> favorites p = PInt 0)
                \<and> (map_of d ''replies'' = None \<longrightarrow> replies p = PInt 0)
                \<and> (map_of d ''retweets'' = None \<longrightarrow> retweets p = PInt 0)
                \<and> (map_of d ''quotes'' = None \<longrightarrow> quotes p = PInt 0)))"
proof (intro conjI allI impI ballI)
  fix ps p
  assume "parse_nitter_html env self html sname = Inr ps" and "p \<in> set ps"
  from parse_nitter_html_members [OF this] obtain it where
    it: "it \<in> set (timeline (soup env html))" "html_obj env (soup env html) sname it = Inr p"
    by blast
  have full: "html_obj env (soup env html) sname it = Inr p
          \<and> counts_nonneg p
          \<and> ((\<forall>s \<in> set (tweet_stats it). stat_key s \<noteq> Some ''favorites'') \<longrightarrow> favorites p = PInt 0)
          \<and> ((\<forall>s \<in> set (tweet_stats it). stat_key s \<noteq> Some ''replies'') \<longrightarrow> replies p = PInt 0)
          \<and> ((\<forall>s \<in> set (tweet_stats it). stat_key s \<noteq> Some ''retweets'') \<longrightarrow> retweets p = PInt 0)
          \<and> ((\<forall>s \<in> set (tweet_stats it). stat_key s \<noteq> Some ''quotes'') \<longrightarrow> quotes p = PInt 0)"
    by (rule conjI [OF it(2) conjI [OF html_obj_counts_nonneg [OF it(2)]
                                       html_obj_default_zero [OF it(2)]]])
  show "\<exists>it \<in> set (timeline (soup env html)).
          html_obj env (soup env html) sname it = Inr p
          \<and> counts_nonneg p
          \<and> ((\<forall>s \<in> set (tweet_stats it). stat_key s \<noteq> Some ''favorites'') \<longrightarrow> favorites p = PInt 0)
          \<and> ((\<forall>s \<in> set (tweet_stats it). stat_key s \<noteq> Some ''replies'') \<longrightarrow> replies p = PInt 0)
          \<and> ((\<forall>s \<in> set (tweet_stats it). stat_key s \<noteq> Some ''retweets'') \<longrightarrow> retweets p = PInt 0)
          \<and> ((\<forall>s \<in> set (tweet_stats it). stat_key s \<noteq> Some ''quotes'') \<longrightarrow> quotes p = PInt 0)"
    by (rule bexI [of _ it]) (rule full it(1))+
next
  fix p assume "p \<in> set (synthetic_posts env self sname)"
  then show "counts_nonneg p"
    by (auto simp: synthetic_posts_def Let_def synthetic_obj_counts_nonneg)
next
  fix items ps p
  assume a: "py_iter (select_items data) = Inr items \<and> parse_nitter_json env self data sname = Inr ps"
     and p: "p \<in> set ps"
  from a p obtain d where d: "PDict d \<in> set items" "json_obj env sname (PDict d) = Inr p"
    using parse_nitter_json_members by blast
  note eqs = json_obj_counts [OF d(2)]
  note e1 = eqs [THEN conjunct1]
  note e2 = eqs [THEN conjunct2, THEN conjunct1]
  note e3 = eqs [THEN conjunct2, THEN conjunct2, THEN conjunct1]
  note e4 = eqs [THEN conjunct2, THEN conjunct2, THEN conjunct2]
  have z1: "map_of d ''likes'' = None \<and> map_of d ''favorites'' = None \<longrightarrow> favorites p = PInt 0"
    by (simp add: e1 dict_get_def py_or_def)
  have z2: "map_of d ''replies'' = None \<longrightarrow> replies p = PInt 0"
    by (simp add: e2 dict_get_def py_or_def)
  have z3: "map_of d ''retweets'' = None \<longrightarrow> retweets p = PInt 0"
    by (simp add: e3 dict_get_def py_or_def)
  have z4: "map_of d ''quotes'' = None \<longrightarrow> quotes p = PInt 0"
    by (simp add: e4 dict_get_def py_or_def)
  have full: "PDict d \<in> set items
          \<and> favorites p = py_or (py_or (dict_get d ''likes'') (dict_get d ''favorites'')) (PInt 0)
          \<and> replies p = py_or (dict_get d ''replies'') (PInt 0)
          \<and> retweets p = py_or (dict_get d ''retweets'') (PInt 0)
          \<and> quotes p = py_or (dict_get d ''quotes'') (PInt 0)
          \<and> (map_of d ''likes'' = None \<and> map_of d ''favorites'' = None \<longrightarrow> favorites p = PInt 0)
          \<and> (map_of d ''replies'' = None \<longrightarrow> replies p = PInt 0)
          \<and> (map_of d ''retweets'' = None \<longrightarrow> retweets p = PInt 0)
          \<and> (map_of d ''quotes'' = None \<longrightarrow> quotes p = PInt 0)"
    by (intro conjI) (rule d(1) e1 e2 e3 e4 z1 z2 z3 z4)+
  show "\<exists>d. PDict d \<in> set items
          \<and> favorites p = py_or (py_or (dict_get d ''likes'') (dict_get d ''favorites'')) (PInt 0)
          \<and> replies p = py_or (dict_get d ''replies'') (PInt 0)
          \<and> retweets p = py_or (dict_get d ''retweets'') (PInt 0)
          \<and> quotes p = py_or (dict_get d ''quotes'') (PInt 0)
          \<and> (map_of d ''likes'' = None \<and> map_of d ''favorites'' = None \<longrightarrow> favorites p = PInt 0)
          \<and> (map_of d ''replies'' = None \<longrightarrow> replies p = PInt 0)
          \<and> (map_of d ''retweets'' = None \<longrightarrow> retweets p = PInt 0)
          \<and> (map_of d ''quotes'' = None \<longrightarrow> quotes p = PInt 0)"
    by (rule exI [of _ d]) (rule full)
qed

lemma bad_counts_items:
  "py_iter (select_items bad_counts) =
     Inr [PDict [(''id'', PInt 42), (''likes'', PInt (- 5)), (''replies'', PStr ''many'')]]"
  by (simp add: bad_counts_def select_items_def py_iter_def)

lemma bad_counts_parse:
  "parse_nitter_json env sample_fetcher bad_counts sname =
     Inr [projr (json_obj env sname
            (PDict [(''id'', PInt 42), (''likes'', PInt (- 5)), (''replies'', PStr ''many'')]))]"
  by (simp add: parse_nitter_json_def bad_counts_items sample_fetcher_def Let_def
        json_obj_def dict_get_def)

lemma bad_counts_fields:
  "favorites (projr (json_obj env sname
       (PDict [(''id'', PInt 42), (''likes'', PInt (- 5)), (''replies'', PStr ''many'')]))) = PInt (- 5)
   \<and> replies (projr (json_obj env sname
       (PDict [(''id'', PInt 42), (''likes'', PInt (- 5)), (''replies'', PStr ''many'')]))) = PStr ''many''"
  by (simp add: json_obj_def dict_get_def py_or_def Let_def)

lemma sample_stat_keys: "map stat_key (tweet_stats sample_item) = [Some ''favorites'']"
  by (simp add: sample_item_def stat_key_def stat_label_def get_attr_def match_count_def
        Let_def char_class_defs)

theorem engagement_counts_by_strategy_witness:
  "parse_nitter_html (env_serving sample_page) sample_fetcher ''<html>'' ''alice''
      = Inr [sample_record sample_page ''alice'']
   \<and> counts_nonneg (sample_record sample_page ''alice'')
   \<and> map stat_key (tweet_stats sample_item) = [Some ''favorites'']
   \<and> favorites (sample_record sample_page ''alice'') = PInt 5
   \<and> replies (sample_record sample_page ''alice'') = PInt 0
   \<and> retweets (sample_record sample_page ''alice'') = PInt 0
   \<and> quotes (sample_record sample_page ''alice'') = PInt 0
   \<and> synthetic_obj env_offline ''alice'' 7 0 \<in> set (synthetic_posts env_offline sample_fetcher ''alice'')
   \<and> counts_nonneg (synthetic_obj env_offline ''alice'' 7 0)
   \<and> (\<exists>p d. parse_nitter_json env_offline sample_fetcher bad_counts ''alice'' = Inr [p]
          \<and> py_iter (select_items bad_counts) = Inr [PDict d]
          \<and> favorites p = py_or (py_or (dict_get d ''likes'') (dict_get d ''favorites'')) (PInt 0)
          \<and> favorites p = PInt (- 5)
          \<and> map_of d ''quotes'' = None \<and> quotes p = PInt 0)"
proof -
  let ?env = "env_serving sample_page"
  let ?p = "sample_record sample_page ''alice''"
  let ?q = "synthetic_obj env_offline ''alice'' 7 0"
  let ?d = "[(''id'', PInt 42), (''likes'', PInt (- 5)), (''replies'', PStr ''many'')]"
  let ?r = "projr (json_obj env_offline ''alice'' (PDict ?d))"
  note main = engagement_counts_by_strategy
  have m1: "parse_nitter_html ?env sample_fetcher ''<html>'' ''alice'' = Inr [?p]"
    by (rule sample_parse)
  have tl: "timeline (soup ?env ''<html>'') = [sample_item]"
    by (simp add: env_serving_def sample_page_def)
  have keys: "\<forall>s \<in> set (tweet_stats sample_item). stat_key s = Some ''favorites''"
    using sample_stat_keys by (simp add: sample_item_def)
  from main [of ?env sample_fetcher "''<html>''" "''alice''"] m1
  have "\<forall>p \<in> set [?p]. \<exists>it \<in> set (timeline (soup ?env ''<html>'')).
          html_obj ?env (soup ?env ''<html>'') ''alice'' it = Inr p
          \<and> counts_nonneg p
          \<and> ((\<forall>s \<in> set (tweet_stats it). stat_key s \<noteq> Some ''favorites'') \<longrightarrow> favorites p = PInt 0)
          \<and> ((\<forall>s \<in> set (tweet_stats it). stat_key s \<noteq> Some ''replies'') \<longrightarrow> replies p = PInt 0)
          \<and> ((\<forall>s \<in> set (tweet_stats it). stat_key s \<noteq> Some ''retweets'') \<longrightarrow> retweets p = PInt 0)
          \<and> ((\<forall>s \<in> set (tweet_stats it). stat_key s \<noteq> Some ''quotes'') \<longrightarrow> quotes p = PInt 0)"
    by blast
  with keys have c1: "counts_nonneg ?p" "replies ?p = PInt 0" "retweets ?p = PInt 0"
    "quotes ?p = PInt 0"
    by (simp_all add: tl)
  have f1: "favorites ?p = PInt 5"
    by (simp add: sample_record_def)
  have "synthetic_posts env_offline sample_fetcher ''alice''
          = map (synthetic_obj env_offline ''alice'' 7) [0 ..< 3]"
    by (simp add: synthetic_posts_def env_offline_def sample_fetcher_def)
  then have m2: "?q \<in> set (synthetic_posts env_offline sample_fetcher ''alice'')"
    by simp
  with main [of env_offline sample_fetcher _ "''alice''"] have c2: "counts_nonneg ?q"
    by blast
  have i3: "py_iter (select_items bad_counts) = Inr [PDict ?d]"
    by (rule bad_counts_items)
  have p3: "parse_nitter_json env_offline sample_fetcher bad_counts ''alice'' = Inr [?r]"
    by (rule bad_counts_parse)
  have q3: "map_of ?d ''quotes'' = None"
    by simp
  from main [of env_offline sample_fetcher _ "''alice''" bad_counts] i3 p3
  have "\<forall>p \<in> set [?r]. \<exists>d. PDict d \<in> set [PDict ?d]
          \<and> favorites p = py_or (py_or (dict_get d ''likes'') (dict_get d ''favorites'')) (PInt 0)
          \<and> replies p = py_or (dict_get d ''replies'') (PInt 0)
          \<and> retweets p = py_or (dict_get d ''retweets'') (PInt 0)
          \<and> quotes p = py_or (dict_get d ''quotes'') (PInt 0)
          \<and> (map_of d ''likes'' = None \<and> map_of d ''favorites'' = None \<longrightarrow> favorites p = PInt 0)
          \<and> (map_of d ''replies'' = None \<longrightarrow> replies p = PInt 0)
          \<and> (map_of d ''retweets'' = None \<longrightarrow> retweets p = PInt 0)
          \<and> (map_of d ''quotes'' = None \<longrightarrow> quotes p = PInt 0)"
    by blast
  then obtain d where d: "PDict d \<in> set [PDict ?d]"
      "favorites ?r = py_or (py_or (dict_get d ''likes'') (dict_get d ''favorites'')) (PInt 0)"
      "map_of d ''quotes'' = None \<longrightarrow> quotes ?r = PInt 0"
    by auto
  from d(1) have "d = ?d" by simp
  with d(2,3) q3
  have "favorites ?r = py_or (py_or (dict_get ?d ''likes'') (dict_get ?d ''favorites'')) (PInt 0)"
    "quotes ?r = PInt 0"
    by simp_all
  with i3 p3 q3 bad_counts_fields [of env_offline "''alice''"]
  have "\<exists>p d. parse_nitter_json env_offline sample_fetcher bad_counts ''alice'' = Inr [p]
          \<and> py_iter (select_items bad_counts) = Inr [PDict d]
          \<and> favorites p = py_or (py_or (dict_get d ''likes'') (dict_get d ''favorites'')) (PInt 0)
          \<and> favorites p = PInt (- 5)
          \<and> map_of d ''quotes'' = None \<and> quotes p = PInt 0"
    by blast
  with m1 c1 f1 sample_stat_keys m2 c2 show ?thesis by blast
qed

text \<open>
  Claim C5 as stated fails for the JSON strategy: a source item with \<open>"likes": -5\<close> and
  \<open>"replies": "many"\<close> gives a record whose \<open>favorites\<close> is \<open>-5\<close> and whose \<open>replies\<close>
  is a string, and the chain returns that record.
\<close>

theorem json_counts_pass_through:
  "(case parse_nitter_json env_offline sample_fetcher bad_counts ''jack'' of
      Inr ps \<Rightarrow> map (\<lambda>p. (favorites p, replies p)) ps | Inl e \<Rightarrow> [])
     = [(PInt (- 5), PStr ''many'')]
   \<and> (case fst (fetch_username (env_json bad_counts) sample_fetcher ''jack'') of
      Inr ps \<Rightarrow> map (\<lambda>p. (favorites p, replies p)) ps | Inl e \<Rightarrow> [])
     = [(PInt (- 5), PStr ''many'')]"
proof -
  let ?env = "env_json bad_counts"
  have c: "mk_client ?env (proxy sample_fetcher) = Inr ()"
    by (simp add: env_json_def env_serving_def env_offline_def)
  have g: "get_html ?env url tr = (Inr ''<html>'', tr @ [Get url])" for url tr
    by (simp add: get_html_def get_html_attempt.simps env_json_def env_serving_def)
  have e: "parse_nitter_html ?env sample_fetcher html sname = Inr []" for html sname
    by (simp add: parse_nitter_html_def env_json_def env_serving_def empty_page_def)
  have j: "json_loads ?env body = Inr bad_counts" for body
    by (simp add: env_json_def)
  have cut: "py_slice_to (max_posts sample_fetcher) [x] = [x]" for x :: post
    by (simp add: py_slice_to_def sample_fetcher_def)
  have "fst (fetch_username ?env sample_fetcher ''jack'') =
          Inr [projr (json_obj ?env ''jack''
            (PDict [(''id'', PInt 42), (''likes'', PInt (- 5)), (''replies'', PStr ''many'')]))]"
    by (simp add: fetch_username_def network_strategies_def json_strategy_def normalize_jack
          c g e j bad_counts_parse cut Let_def)
  then show ?thesis
    by (simp add: bad_counts_parse bad_counts_fields)
qed

section \<open>The timestamp field\<close>

lemma to_iso8601_absent: "\<not> truthy v \<Longrightarrow> to_iso8601 env v = now_utc_iso env"
  by (simp add: to_iso8601_def)

lemma to_iso8601_unparsable:
  "parse_utc_iso env s = Inl e \<Longrightarrow> to_iso8601 env (PStr s) = now_utc_iso env"
  by (simp add: to_iso8601_def)

lemma to_iso8601_parsed:
  "s \<noteq> [] \<Longrightarrow> parse_utc_iso env s = Inr t \<Longrightarrow> to_iso8601 env (PStr s) = t"
  by (simp add: to_iso8601_def)

lemma html_obj_no_date:
  "html_obj env pg sname it = Inr p \<Longrightarrow> \<not> truthy (item_created it) \<Longrightarrow> created_at p = PNone"
  by (auto simp: html_obj_def Let_def py_or_def split: sum.splits)

lemma json_obj_no_date:
  "json_obj env sname (PDict d) = Inr p \<Longrightarrow> \<not> truthy (tw_created d) \<Longrightarrow> created_at p = PNone"
  by (auto simp: json_obj_def Let_def split: pyval.splits option.splits)

text \<open>
  Claim C1, as the code has it. A synthetic record's \<open>created_at\<close> is \<open>to_iso8601(None)\<close>,
  the current UTC time; \<open>to_iso8601\<close> itself gives the current UTC time for an absent,
  empty or unparsable argument and the parser's UTC string otherwise. A record of the
  HTML or of the JSON strategy comes from one source item, and when that item has no
  date (none, or an empty one) the record's \<open>created_at\<close> is \<open>None\<close>: both strategies
  guard the conversion with \<open>if created_at else None\<close>.
\<close>

theorem created_at_by_strategy:
  "(\<forall>p \<in> set (synthetic_posts env self sname). created_at p = PStr (now_utc_iso env))
   \<and> (\<not> truthy v \<longrightarrow> to_iso8601 env v = now_utc_iso env)
   \<and> (\<forall>s e. parse_utc_iso env s = Inl e \<longrightarrow> to_iso8601 env (PStr s) = now_utc_iso env)
   \<and> (\<forall>s t. s \<noteq> [] \<and> parse_utc_iso env s = Inr t \<longrightarrow> to_iso8601 env (PStr s) = t)
   \<and> (\<forall>ps. parse_nitter_html env self html sname = Inr ps \<longrightarrow>
         (\<forall>p \<in> set ps. \<exists>it \<in> set (timeline (soup env html)).
            html_obj env (soup env html) sname it = Inr p
            \<and> (\<not> truthy (item_created it) \<longrightarrow> created_at p = PNone)))
   \<and> (\<forall>items ps.
         py_iter (select_items data) = Inr items \<and> parse_nitter_json env self data sname = Inr ps
         \<longrightarrow> (\<forall>p \<in> set ps. \<exists>d. PDict d \<in> set items \<and> json_obj env sname (PDict d) = Inr p
                \<and> (\<not> truthy (tw_created d) \<longrightarrow> created_at p = PNone)))"
proof (intro conjI ballI allI impI)
  fix p assume "p \<in> set (synthetic_posts env self sname)"
  then show "created_at p = PStr (now_utc_iso env)"
    by (auto simp: synthetic_posts_def synthetic_obj_def Let_def to_iso8601_def)
next
  assume "\<not> truthy v" then show "to_iso8601 env v = now_utc_iso env"
    by (rule to_iso8601_absent)
next
  fix s e assume "parse_utc_iso env s = Inl e"
  then show "to_iso8601 env (PStr s) = now_utc_iso env" by (rule to_iso8601_unparsable)
next
  fix s t assume "s \<noteq> [] \<and> parse_utc_iso env s = Inr t"
  then show "to_iso8601 env (PStr s) = t" by (simp add: to_iso8601_parsed)
next
  fix ps p
  assume "parse_nitter_html env self html sname = Inr ps" and "p \<in> set ps"
  from parse_nitter_html_members [OF this] obtain it where
    it: "it \<in> set (timeline (soup env html))" "html_obj env (soup env html) sname it = Inr p"
    by blast
  from it html_obj_no_date [OF it(2)]
  show "\<exists>it \<in> set (timeline (soup env html)).
            html_obj env (soup env html) sname it = Inr p
            \<and> (\<not> truthy (item_created it) \<longrightarrow> created_at p = PNone)"
    by blast
next
  fix items ps p
  assume a: "py_iter (select_items data) = Inr items \<and> parse_nitter_json env self data sname = Inr ps"
     and p: "p \<in> set ps"
  from a p obtain d where d: "PDict d \<in> set items" "json_obj env sname (PDict d) = Inr p"
    using parse_nitter_json_members by blast
  with json_obj_no_date [OF d(2)]
  show "\<exists>d. PDict d \<in> set items \<and> json_obj env sname (PDict d) = Inr p
          \<and> (\<not> truthy (tw_created d) \<longrightarrow> created_at p = PNone)"
    by blast
qed

theorem created_at_by_strategy_witness:
  "synthetic_obj env_offline ''alice'' 7 0 \<in> set (synthetic_posts env_offline sample_fetcher ''alice'')
   \<and> created_at (synthetic_obj env_offline ''alice'' 7 0) = PStr ''2024-01-01T00:00:00+00:00''
   \<and> to_iso8601 env_offline PNone = ''2024-01-01T00:00:00+00:00''
   \<and> to_iso8601 env_offline (PStr ''yesterday'') = ''2024-01-01T00:00:00+00:00''
   \<and> parse_nitter_html (env_serving sample_page) sample_fetcher ''<html>'' ''alice''
        = Inr [sample_record sample_page ''alice'']
   \<and> \<not> truthy (item_created sample_item)
   \<and> created_at (sample_record sample_page ''alice'') = PNone
   \<and> (\<exists>p. parse_nitter_json env_offline sample_fetcher bad_counts ''alice'' = Inr [p]
          \<and> created_at p = PNone)"
proof -
  let ?srv = "env_serving sample_page"
  let ?p = "sample_record sample_page ''alice''"
  let ?q = "synthetic_obj env_offline ''alice'' 7 0"
  let ?d = "[(''id'', PInt 42), (''likes'', PInt (- 5)), (''replies'', PStr ''many'')]"
  let ?r = "projr (json_obj env_offline ''alice'' (PDict ?d))"
  note main = created_at_by_strategy
  have now: "now_utc_iso env_offline = ''2024-01-01T00:00:00+00:00''"
    by (simp add: now_utc_iso_def env_offline_def)
  have "synthetic_posts env_offline sample_fetcher ''alice''
          = map (synthetic_obj env_offline ''alice'' 7) [0 ..< 3]"
    by (simp add: synthetic_posts_def env_offline_def sample_fetcher_def)
  then have m1: "?q \<in> set (synthetic_posts env_offline sample_fetcher ''alice'')"
    by simp
  with main [of env_offline sample_fetcher "''alice''"] now
  have c1: "created_at ?q = PStr ''2024-01-01T00:00:00+00:00''"
    by simp
  from main [of env_offline _ _ PNone] now
  have c2: "to_iso8601 env_offline PNone = ''2024-01-01T00:00:00+00:00''"
    by simp
  have "parse_utc_iso env_offline ''yesterday'' = Inl ValueError"
    by (simp add: env_offline_def)
  with main [of env_offline, THEN conjunct2, THEN conjunct2, THEN conjunct1, rule_format,
             of "''yesterday''" ValueError] now
  have c3: "to_iso8601 env_offline (PStr ''yesterday'') = ''2024-01-01T00:00:00+00:00''"
    by simp
  have m4: "parse_nitter_html ?srv sample_fetcher ''<html>'' ''alice'' = Inr [?p]"
    by (rule sample_parse)
  have sp: "soup ?srv ''<html>'' = sample_page"
    by (simp add: env_serving_def)
  have tl: "timeline sample_page = [sample_item]"
    by (simp add: sample_page_def)
  have n4: "\<not> truthy (item_created sample_item)"
    by (simp add: item_created_def sample_item_def)
  from main [of ?srv sample_fetcher "''alice''" _ "''<html>''"] m4
  have "\<forall>p \<in> set [?p]. \<exists>it \<in> set (timeline (soup ?srv ''<html>'')).
            html_obj ?srv (soup ?srv ''<html>'') ''alice'' it = Inr p
            \<and> (\<not> truthy (item_created it) \<longrightarrow> created_at p = PNone)"
    by blast
  with n4 have c4: "created_at ?p = PNone"
    by (simp add: sp tl)
  have i5: "py_iter (select_items bad_counts) = Inr [PDict ?d]"
    by (rule bad_counts_items)
  have p5: "parse_nitter_json env_offline sample_fetcher bad_counts ''alice'' = Inr [?r]"
    by (rule bad_counts_parse)
  have n5: "\<not> truthy (tw_created ?d)"
    by (simp add: tw_created_def dict_get_def py_or_def)
  from main [of env_offline sample_fetcher "''alice''" _ _ bad_counts] i5 p5
  have "\<forall>p \<in> set [?r]. \<exists>d. PDict d \<in> set [PDict ?d] \<and> json_obj env_offline ''alice'' (PDict d) = Inr p
          \<and> (\<not> truthy (tw_created d) \<longrightarrow> created_at p = PNone)"
    by blast
  with n5 have "created_at ?r = PNone" by simp
  with p5 have c5: "\<exists>p. parse_nitter_json env_offline sample_fetcher bad_counts ''alice'' = Inr [p]
          \<and> created_at p = PNone"
    by blast
  from m1 c1 c2 c3 m4 n4 c4 c5 show ?thesis by blast
qed

text \<open>
  Claim C1 as stated fails: a timeline item with a status link and a text but no date
  node gives a record whose \<open>created_at\<close> is \<open>None\<close>, and the chain returns that record.
\<close>

theorem created_at_null_in_output:
  "(case fst (fetch_username (env_serving sample_page) sample_fetcher ''alice'') of
      Inr ps \<Rightarrow> map created_at ps | Inl e \<Rightarrow> []) = [PNone]"
proof -
  let ?env = "env_serving sample_page"
  have c: "mk_client ?env (proxy sample_fetcher) = Inr ()"
    by (simp add: env_serving_def env_offline_def)
  have cut: "py_slice_to (max_posts sample_fetcher) [x] = [x]" for x :: post
    by (simp add: py_slice_to_def sample_fetcher_def)
  have "fst (fetch_username ?env sample_fetcher ''alice'') =
          Inr [sample_record sample_page ''alice'']"
    by (simp add: fetch_username_def network_strategies_def normalize_alice c serving_get_html
          sample_parse cut Let_def)
  then show ?thesis by (simp add: sample_record_def)
qed

section \<open>Properties of the JSON strategy\<close>







section \<open>Properties of the synthetic strategy\<close>

lemma synthetic_posts_up_to_timestamp:
  assumes "py_hash env1 sname = py_hash env2 sname"
  shows "map (\<lambda>p. p\<lparr>created_at := PNone\<rparr>) (synthetic_posts env1 self sname)
       = map (\<lambda>p. p\<lparr>created_at := PNone\<rparr>) (synthetic_posts env2 self sname)"
  using assms by (simp add: synthetic_posts_def synthetic_obj_def Let_def)

text \<open>
  Claim C4 fails on the code when the two invocations run in different interpreter
  processes. The base id is \<open>abs(hash(screen_name)) % 10_000_000_000\<close>, and Python salts
  the hash of a string per process, so the only thing the two runs share is the handle.
  With hash values -7 and 12 for the same handle the ids are 7, 8, 9 in one run and 12,
  13, 14 in the other. (Inside one process, where the hash is one function, the batches
  do agree up to the timestamp: \<open>synthetic_posts_up_to_timestamp\<close>.)
\<close>

theorem synthetic_ids_follow_process_hash:
  "map tweet_id (synthetic_posts env_offline sample_fetcher ''jack'')
     = [PStr ''7'', PStr ''8'', PStr ''9'']
   \<and> map tweet_id (synthetic_posts env_other_process sample_fetcher ''jack'')
     = [PStr ''12'', PStr ''13'', PStr ''14'']
   \<and> map text_field (synthetic_posts env_offline sample_fetcher ''jack'')
     = [PStr ''SYNTHETIC: Hello from @jack #0'', PStr ''SYNTHETIC: Hello from @jack #1'',
        PStr ''SYNTHETIC: Hello from @jack #2'']"
proof -
  have upt3: "[0 ..< 3] = [0, 1, 2::nat]"
    by (simp add: upt_rec)
  show ?thesis
    by (simp add: synthetic_posts_def synthetic_obj_def Let_def env_other_process_def
          env_offline_def sample_fetcher_def upt3 str_int_def str_nat.simps char_class_defs)
qed

end
